theory Spec2Isabelle
  imports Complex_Main "HOL-Library.Multiset"
begin

section \<open>JavaScript numbers and values\<close>

text \<open>
  The dashboard script \<^verbatim>\<open>src/public/app.js\<close> computes with JavaScript numbers, IEEE
  binary64 values. A number is modelled as the real it denotes; \<^verbatim>\<open>NaN\<close> and the
  infinities are outside the model, and every numeric field of the upstream JSON is
  taken to be a JSON number (or absent). A property that is absent, \<^verbatim>\<open>undefined\<close> or
  \<^verbatim>\<open>null\<close> is \<open>None\<close>. Rounding of an arithmetic result to binary64 is written out
  (\<open>fl\<close> below) where a property depends on it, in the gauge banding; elsewhere the
  operations are the exact ones.

  \<^verbatim>\<open>Math.round\<close> rounds to the nearest integer, a tie going up (towards plus infinity).
\<close>

definition Math_round :: "real \<Rightarrow> int" where
  "Math_round x = \<lfloor>x + 1 / 2\<rfloor>"

text \<open>\<^verbatim>\<open>x || 0\<close> on an optional number: a missing value and \<^verbatim>\<open>0\<close> are falsy and give \<^verbatim>\<open>0\<close>.\<close>

definition or_zero :: "real option \<Rightarrow> real" where
  "or_zero v = (case v of None \<Rightarrow> 0 | Some x \<Rightarrow> (if x = 0 then 0 else x))"

subsection \<open>Rounding to binary64\<close>

text \<open>
  A finite binary64 value is an integer of at most 53 bits times a power of two, the
  exponent of the leading bit lying between -1022 and 1023 (below 2 to the power -1022
  the subnormal values share the spacing 2 to the power -1074). \<open>exponent x\<close> is that
  exponent for a real \<open>x\<close>, found by counting up or down from 0 within the range;
  \<open>ulp x\<close> is the spacing of the binary64 values around \<open>x\<close>; \<open>fl x\<close> is the binary64
  value nearest to \<open>x\<close>, a tie going to the even multiple of the spacing, which is how
  every arithmetic operation of the language rounds its exact result. A result that
  rounds to magnitude 2 to the power 1024 or more is an infinity in the language and
  outside the model.
\<close>

fun exp_up :: "real \<Rightarrow> nat \<Rightarrow> int \<Rightarrow> int" where
  "exp_up x 0 e = e"
| "exp_up x (Suc n) e = (if x < 2 powi (e + 1) then e else exp_up x n (e + 1))"

fun exp_down :: "real \<Rightarrow> nat \<Rightarrow> int \<Rightarrow> int" where
  "exp_down x 0 e = e"
| "exp_down x (Suc n) e = (if 2 powi e \<le> x then e else exp_down x n (e - 1))"

definition exponent :: "real \<Rightarrow> int" where
  "exponent x = (if 1 \<le> \<bar>x\<bar> then exp_up \<bar>x\<bar> 1023 0 else exp_down \<bar>x\<bar> 1022 0)"

definition ulp :: "real \<Rightarrow> real" where
  "ulp x = 2 powi (exponent x - 52)"

definition round_even :: "real \<Rightarrow> int" where
  "round_even q =
     (let f = \<lfloor>q\<rfloor>; d = q - of_int f
      in if d < 1 / 2 then f else if 1 / 2 < d then f + 1 else if even f then f else f + 1)"

definition fl :: "real \<Rightarrow> real" where
  "fl x = of_int (round_even (x / ulp x)) * ulp x"

section \<open>Gauge banding (\<^verbatim>\<open>updateMetrics\<close>)\<close>

text \<open>
  \<^verbatim>\<open>
  const maxPower = 4500;
  const powerPercentage = Math.min((power / maxPower) * 100, 100);
  if (powerGaugeChart) {
      let normalPercentage = 0, warningPercentage = 0, criticalPercentage = 0;
      if (powerPercentage <= 60) {
          normalPercentage = powerPercentage;
      } else if (powerPercentage <= 80) {
          normalPercentage = 60;
          warningPercentage = powerPercentage - 60;
      } else {
          normalPercentage = 60;
          warningPercentage = 20;
          criticalPercentage = powerPercentage - 80;
      }
      const remaining = 100 - powerPercentage;
      powerGaugeChart.data.datasets[0].data =
          [normalPercentage, warningPercentage, criticalPercentage, remaining];
  \<close>
  The four slices handed to the gauge chart are a record; the maximum, a constant of the
  source, is a parameter of the banding function so that it can be stated for any maximum.

  The banding is given twice. \<open>gaugeBands\<close> reads the arithmetic as exact; the signs of
  the slices are studied on it. \<open>gaugeBands64\<close> is the code as it runs: the division, the
  multiplication and each subtraction round their result to binary64 (the comparisons,
  \<^verbatim>\<open>Math.min\<close> and the constants are exact). \<open>sum64\<close> is the JavaScript expression
  \<^verbatim>\<open>normal + warning + critical + remaining\<close> on the four slices, each addition rounded.
\<close>

record GaugeBands =
  normalPercentage :: real
  warningPercentage :: real
  criticalPercentage :: real
  remaining :: real

definition powerPercentage :: "real \<Rightarrow> real \<Rightarrow> real" where
  "powerPercentage pw maxPower = min ((pw / maxPower) * 100) 100"

definition gaugeBands :: "real \<Rightarrow> real \<Rightarrow> GaugeBands" where
  "gaugeBands pw maxPower =
     (let p = powerPercentage pw maxPower in
      if p \<le> 60 then
        \<lparr>normalPercentage = p, warningPercentage = 0, criticalPercentage = 0,
         remaining = 100 - p\<rparr>
      else if p \<le> 80 then
        \<lparr>normalPercentage = 60, warningPercentage = p - 60, criticalPercentage = 0,
         remaining = 100 - p\<rparr>
      else
        \<lparr>normalPercentage = 60, warningPercentage = 20, criticalPercentage = p - 80,
         remaining = 100 - p\<rparr>)"

definition powerPercentage64 :: "real \<Rightarrow> real \<Rightarrow> real" where
  "powerPercentage64 pw maxPower = min (fl (fl (pw / maxPower) * 100)) 100"

definition gaugeBands64 :: "real \<Rightarrow> real \<Rightarrow> GaugeBands" where
  "gaugeBands64 pw maxPower =
     (let p = powerPercentage64 pw maxPower in
      if p \<le> 60 then
        \<lparr>normalPercentage = p, warningPercentage = 0, criticalPercentage = 0,
         remaining = fl (100 - p)\<rparr>
      else if p \<le> 80 then
        \<lparr>normalPercentage = 60, warningPercentage = fl (p - 60), criticalPercentage = 0,
         remaining = fl (100 - p)\<rparr>
      else
        \<lparr>normalPercentage = 60, warningPercentage = 20, criticalPercentage = fl (p - 80),
         remaining = fl (100 - p)\<rparr>)"

definition sum64 :: "GaugeBands \<Rightarrow> real" where
  "sum64 b =
     fl (fl (fl (normalPercentage b + warningPercentage b) + criticalPercentage b)
         + remaining b)"

definition maxPower :: real where
  "maxPower = 4500"

text \<open>
  The payload of \<^verbatim>\<open>/api/current\<close> and what \<^verbatim>\<open>updateMetrics\<close> shows for it: the two
  rounded readings and, when the gauge chart has been created, its four slices.
\<close>

record CurrentData =
  data_power :: "real option"
  data_total_yield :: "real option"

record MetricsView =
  powerValue :: int
  yieldValue :: int
  gaugeData :: "GaugeBands option"

definition updateMetrics :: "bool \<Rightarrow> CurrentData \<Rightarrow> MetricsView" where
  "updateMetrics powerGaugeChart d =
     (let pw = Math_round (or_zero (data_power d));
          yieldWh = Math_round (or_zero (data_total_yield d))
      in \<lparr>powerValue = pw,
          yieldValue = Math_round (real_of_int yieldWh / 1000),
          gaugeData = (if powerGaugeChart then Some (gaugeBands64 (real_of_int pw) maxPower)
                       else None)\<rparr>)"

section \<open>\<^verbatim>\<open>Array.prototype.sort\<close> with a comparator\<close>

text \<open>
  \<^verbatim>\<open>sort\<close> is stable, and with a comparator that is a consistent ordering its result is
  determined: the stable sorted permutation. It is modelled by stable insertion, an
  element going before the first one it does not compare greater than. A comparator
  result of \<^verbatim>\<open>NaN\<close> counts as 0, as the language specifies.
\<close>

fun js_insert :: "('a \<Rightarrow> 'a \<Rightarrow> real) \<Rightarrow> 'a \<Rightarrow> 'a list \<Rightarrow> 'a list" where
  "js_insert cmp x [] = [x]"
| "js_insert cmp x (y # ys) =
     (if cmp x y \<le> 0 then x # y # ys else y # js_insert cmp x ys)"

definition js_sort :: "('a \<Rightarrow> 'a \<Rightarrow> real) \<Rightarrow> 'a list \<Rightarrow> 'a list" where
  "js_sort cmp xs = foldr (js_insert cmp) xs []"

section \<open>Time-series assembler (\<^verbatim>\<open>updateTimeSeries\<close>)\<close>

text \<open>
  \<^verbatim>\<open>
  if (!Array.isArray(data) || data.length === 0) { ... 'No data available' ...; return; }
  const sortedData = [...data].sort((a, b) => a.TimeStamp - b.TimeStamp);
  const labels = sortedData.map(item => {
      const date = new Date(item.TimeStamp * 1000);
      return date.toLocaleTimeString('en-US', { hour: '2-digit', minute: '2-digit' });
  });
  const powers = sortedData.map(item => Math.round(item.Power || 0));
  if (powerTimeSeriesChart) { ... labels, powers ...; overlay hidden }
  \<close>
  A sample of \<^verbatim>\<open>/api/today\<close> has a numeric \<^verbatim>\<open>TimeStamp\<close> and an optional \<^verbatim>\<open>Power\<close>.
  The label of a time depends on the browser's time zone, so the formatter
  \<open>toLocaleTimeString\<close> (from milliseconds to text) is a parameter. An input that is not an
  array is \<open>None\<close>.
\<close>

record RawSample =
  TimeStamp :: real
  Power :: "real option"

datatype series_outcome =
  SeriesNoData
| SeriesUpdated "string list" "int list"
| SeriesUntouched

definition sortedData :: "RawSample list \<Rightarrow> RawSample list" where
  "sortedData xs = js_sort (\<lambda>a b. TimeStamp a - TimeStamp b) xs"

definition labels :: "(real \<Rightarrow> string) \<Rightarrow> RawSample list \<Rightarrow> string list" where
  "labels toLocaleTimeString xs =
     map (\<lambda>item. toLocaleTimeString (TimeStamp item * 1000)) (sortedData xs)"

definition powers :: "RawSample list \<Rightarrow> int list" where
  "powers xs = map (\<lambda>item. Math_round (or_zero (Power item))) (sortedData xs)"

definition updateTimeSeries ::
  "(real \<Rightarrow> string) \<Rightarrow> bool \<Rightarrow> RawSample list option \<Rightarrow> series_outcome" where
  "updateTimeSeries toLocaleTimeString powerTimeSeriesChart d =
     (case d of
        None \<Rightarrow> SeriesNoData
      | Some xs \<Rightarrow>
          if length xs = 0 then SeriesNoData
          else if powerTimeSeriesChart
            then SeriesUpdated (labels toLocaleTimeString xs) (powers xs)
          else SeriesUntouched)"

section \<open>Yearly yield reducer (\<^verbatim>\<open>updateYearlyYield\<close>)\<close>

text \<open>
  \<^verbatim>\<open>
  const normalized = data.map(item => {
      const year = item.year ?? item.Year ?? item.year_value ?? item.yearVal;
      const yieldWh = item.yield ?? item.Yield ?? item.total ?? item.Total
                      ?? item.total_yield ?? 0;
      return { year: year ?? '-', kwh: Math.round((yieldWh || 0) / 1000) };
  }).filter(entry => entry.year !== '-');
  \<close>
  A yearly record carries its year under one of four keys, as a JSON number or a JSON
  string, and its yield in watt-hours under one of five keys, as a JSON number. The
  fields of the record are named after the property reads \<^verbatim>\<open>item.year\<close>, ...
\<close>

datatype jsval = JNum real | JStr string

record RawYearRecord =
  item_year :: "jsval option"
  item_Year :: "jsval option"
  item_year_value :: "jsval option"
  item_yearVal :: "jsval option"
  item_yield :: "real option"
  item_Yield :: "real option"
  item_total :: "real option"
  item_Total :: "real option"
  item_total_yield :: "real option"

record YearEntry =
  year :: jsval
  kwh :: int

text \<open>\<^verbatim>\<open>a ?? b\<close>: the left operand unless it is \<^verbatim>\<open>null\<close> or \<^verbatim>\<open>undefined\<close>.\<close>

definition nullish :: "'a option \<Rightarrow> 'a option \<Rightarrow> 'a option" where
  "nullish a b = (case a of None \<Rightarrow> b | Some v \<Rightarrow> Some v)"

definition normalizeItem :: "RawYearRecord \<Rightarrow> YearEntry" where
  "normalizeItem item =
     (let yr = nullish (nullish (nullish (item_year item) (item_Year item))
                          (item_year_value item)) (item_yearVal item);
          yieldWh = nullish (nullish (nullish (nullish (nullish (item_yield item)
                      (item_Yield item)) (item_total item)) (item_Total item))
                      (item_total_yield item)) (Some 0)
      in \<lparr>year = (case yr of None \<Rightarrow> JStr ''-'' | Some v \<Rightarrow> v),
          kwh = Math_round (or_zero yieldWh / 1000)\<rparr>)"

definition normalized :: "RawYearRecord list \<Rightarrow> YearEntry list" where
  "normalized xs = filter (\<lambda>entry. year entry \<noteq> JStr ''-'') (map normalizeItem xs)"

text \<open>
  The entry \<^verbatim>\<open>{ year, kwh }\<close> that the normalizer returns, read again as a record: it
  has the property \<^verbatim>\<open>year\<close> and none of the other eight keys (\<^verbatim>\<open>kwh\<close> is not one of
  the yield keys).
\<close>

definition entry_as_item :: "YearEntry \<Rightarrow> RawYearRecord" where
  "entry_as_item e =
     \<lparr>item_year = Some (year e), item_Year = None, item_year_value = None,
      item_yearVal = None, item_yield = None, item_Yield = None, item_total = None,
      item_Total = None, item_total_yield = None\<rparr>"

text \<open>The record \<^verbatim>\<open>{}\<close>, with none of the nine keys; other records are written as updates of it.\<close>

definition empty_record :: RawYearRecord where
  "empty_record =
     \<lparr>item_year = None, item_Year = None, item_year_value = None, item_yearVal = None,
      item_yield = None, item_Yield = None, item_total = None, item_Total = None,
      item_total_yield = None\<rparr>"

text \<open>
  \<^verbatim>\<open>
  const sorted = normalized.sort((a, b) => Number(a.year) - Number(b.year));
  const differences = sorted.map((entry, idx) => {
      if (idx === 0) { return entry.kwh; }
      return Math.max(0, entry.kwh - sorted[idx - 1].kwh);
  });
  const labels = sorted.map(entry => entry.year);
  const currentYear = new Date().getFullYear();
  const fullYearDifferences = differences.filter((_, idx) => {
      const yearValue = Number(sorted[idx].year);
      return idx > 0 && yearValue !== currentYear;
  });
  const meanValue = fullYearDifferences.length > 0
      ? fullYearDifferences.reduce((a, b) => a + b, 0) / fullYearDifferences.length
      : (differences.length > 0
          ? differences.reduce((a, b) => a + b, 0) / differences.length : 0);
  \<close>
  \<^verbatim>\<open>Number\<close> of a number is the number; of a string it is what the language's
  \<open>StringToNumber\<close> gives, a parameter here, with \<open>None\<close> for \<^verbatim>\<open>NaN\<close>. The current
  year, read from the clock in the source, is a parameter as well. When every year is a
  number the comparator is a consistent ordering and \<open>sorted_entries\<close> is what every
  engine returns; with a year that converts to \<^verbatim>\<open>NaN\<close> the comparator is inconsistent,
  the language leaves the order to the engine, and \<open>sorted_entries\<close> is one such order.
\<close>

definition Number :: "(string \<Rightarrow> real option) \<Rightarrow> jsval \<Rightarrow> real option" where
  "Number StringToNumber v = (case v of JNum x \<Rightarrow> Some x | JStr s \<Rightarrow> StringToNumber s)"

definition compareYears ::
  "(string \<Rightarrow> real option) \<Rightarrow> YearEntry \<Rightarrow> YearEntry \<Rightarrow> real" where
  "compareYears StringToNumber a b =
     (case Number StringToNumber (year a) of
        None \<Rightarrow> 0
      | Some x \<Rightarrow> (case Number StringToNumber (year b) of None \<Rightarrow> 0 | Some y \<Rightarrow> x - y))"

definition sorted_entries ::
  "(string \<Rightarrow> real option) \<Rightarrow> YearEntry list \<Rightarrow> YearEntry list" where
  "sorted_entries StringToNumber xs = js_sort (compareYears StringToNumber) xs"

definition differences :: "YearEntry list \<Rightarrow> int list" where
  "differences srt =
     map (\<lambda>(idx, entry).
            if idx = 0 then kwh entry
            else max 0 (kwh entry - kwh (srt ! (idx - 1))))
         (enumerate 0 srt)"

definition fullYearDifferences ::
  "(string \<Rightarrow> real option) \<Rightarrow> int \<Rightarrow> YearEntry list \<Rightarrow> int list" where
  "fullYearDifferences StringToNumber currentYear srt =
     map snd
       (filter (\<lambda>(idx, d). idx > 0
                  \<and> Number StringToNumber (year (srt ! idx)) \<noteq> Some (real_of_int currentYear))
          (enumerate 0 (differences srt)))"

definition reduce_add :: "int list \<Rightarrow> int" where
  "reduce_add xs = foldl (\<lambda>a b. a + b) 0 xs"

definition meanValue :: "(string \<Rightarrow> real option) \<Rightarrow> int \<Rightarrow> YearEntry list \<Rightarrow> real" where
  "meanValue StringToNumber currentYear srt =
     (let full = fullYearDifferences StringToNumber currentYear srt;
          ds = differences srt
      in if length full > 0 then real_of_int (reduce_add full) / real (length full)
         else if length ds > 0 then real_of_int (reduce_add ds) / real (length ds)
         else 0)"

text \<open>
  What \<^verbatim>\<open>updateYearlyYield\<close> does to the page: either the overlay shows
  \<^verbatim>\<open>No data available\<close>, or the chart receives the year labels, the differences and the
  flat mean line (\<^verbatim>\<open>new Array(differences.length).fill(meanValue)\<close>) and the overlay is
  hidden. The guard is \<^verbatim>\<open>!Array.isArray(data) || data.length === 0 || !yearlyYieldChart\<close>.
\<close>

datatype yearly_outcome =
  YearlyNoData
| YearlyRendered "jsval list" "int list" "real list"

definition updateYearlyYield ::
  "(string \<Rightarrow> real option) \<Rightarrow> int \<Rightarrow> bool \<Rightarrow> RawYearRecord list option \<Rightarrow> yearly_outcome" where
  "updateYearlyYield StringToNumber currentYear yearlyYieldChart d =
     (case d of
        None \<Rightarrow> YearlyNoData
      | Some xs \<Rightarrow>
          if length xs = 0 \<or> \<not> yearlyYieldChart then YearlyNoData
          else
            (let srt = sorted_entries StringToNumber (normalized xs);
                 ds = differences srt
             in YearlyRendered (map year srt) ds
                  (replicate (length ds) (meanValue StringToNumber currentYear srt))))"

section \<open>Payloads as they arrive: \<^verbatim>\<open>null\<close> and exceptions\<close>

text \<open>
  The transforms above are stated on well-formed data. In a parsed JSON payload a value
  that should be an object can also be \<^verbatim>\<open>null\<close>, and reading a property of \<^verbatim>\<open>null\<close>
  throws a \<^verbatim>\<open>TypeError\<close>: \<^verbatim>\<open>data.power\<close> in \<^verbatim>\<open>updateMetrics\<close> (line 366),
  \<^verbatim>\<open>a.TimeStamp\<close> in the comparator or \<^verbatim>\<open>item.TimeStamp\<close> in the first \<^verbatim>\<open>map\<close> of
  \<^verbatim>\<open>updateTimeSeries\<close> (lines 410 and 413), \<^verbatim>\<open>item.year\<close> in the \<^verbatim>\<open>map\<close> of
  \<^verbatim>\<open>updateYearlyYield\<close> (line 444). Each of these reads comes before the function changes
  anything on the page. A number, string or boolean in the place of an object does not
  throw: all of its properties read are \<^verbatim>\<open>undefined\<close>, as for \<^verbatim>\<open>{}\<close>; the operators
  applied to the values read (\<^verbatim>\<open>??\<close>, \<^verbatim>\<open>||\<close>, the arithmetic, \<^verbatim>\<open>Number\<close>, \<^verbatim>\<open>Math.round\<close>,
  \<^verbatim>\<open>Math.max\<close>) do not throw either.

  So an element of a payload array, and the \<^verbatim>\<open>data\<close> object of \<^verbatim>\<open>/api/current\<close>, is an
  option, \<open>None\<close> for \<^verbatim>\<open>null\<close> (or a missing \<^verbatim>\<open>data\<close>), and a function that can throw
  returns a sum, \<open>Inl\<close> the exception. \<open>js_error\<close> lists everything thrown inside the
  \<^verbatim>\<open>try\<close> of \<^verbatim>\<open>fetchData\<close>: the \<^verbatim>\<open>TypeError\<close>, the explicit
  \<^verbatim>\<open>throw new Error('Unauthorized: ...')\<close>, a rejected \<^verbatim>\<open>fetch\<close> and a rejected
  \<^verbatim>\<open>response.json()\<close>.
\<close>

datatype js_error = TypeError | Unauthorized | FetchRejected | JsonRejected

definition read_properties :: "'a option \<Rightarrow> js_error + 'a" where
  "read_properties item = (case item of None \<Rightarrow> Inl TypeError | Some v \<Rightarrow> Inr v)"

text \<open>\<^verbatim>\<open>Array.prototype.map\<close> with a callback that can throw: the first exception ends it.\<close>

fun map_throwing :: "('a \<Rightarrow> js_error + 'b) \<Rightarrow> 'a list \<Rightarrow> js_error + 'b list" where
  "map_throwing f [] = Inr []"
| "map_throwing f (x # xs) =
     (case f x of
        Inl e \<Rightarrow> Inl e
      | Inr y \<Rightarrow> (case map_throwing f xs of Inl e \<Rightarrow> Inl e | Inr ys \<Rightarrow> Inr (y # ys)))"

definition updateMetrics_json :: "bool \<Rightarrow> CurrentData option \<Rightarrow> js_error + MetricsView" where
  "updateMetrics_json powerGaugeChart d =
     (case read_properties d of
        Inl e \<Rightarrow> Inl e
      | Inr v \<Rightarrow> Inr (updateMetrics powerGaugeChart v))"

text \<open>
  The guards of the two array transforms come first and look at no element, so an
  input they reject gives the "no data" outcome even if it holds a \<^verbatim>\<open>null\<close>.
\<close>

definition updateTimeSeries_json ::
  "(real \<Rightarrow> string) \<Rightarrow> bool \<Rightarrow> RawSample option list option \<Rightarrow> js_error + series_outcome" where
  "updateTimeSeries_json toLocaleTimeString powerTimeSeriesChart d =
     (case d of
        None \<Rightarrow> Inr SeriesNoData
      | Some xs \<Rightarrow>
          if length xs = 0 then Inr SeriesNoData
          else (case map_throwing read_properties xs of
                  Inl e \<Rightarrow> Inl e
                | Inr ys \<Rightarrow>
                    Inr (updateTimeSeries toLocaleTimeString powerTimeSeriesChart (Some ys))))"

definition updateYearlyYield_json ::
  "(string \<Rightarrow> real option) \<Rightarrow> int \<Rightarrow> bool \<Rightarrow> RawYearRecord option list option
     \<Rightarrow> js_error + yearly_outcome" where
  "updateYearlyYield_json StringToNumber currentYear yearlyYieldChart d =
     (case d of
        None \<Rightarrow> Inr YearlyNoData
      | Some xs \<Rightarrow>
          if length xs = 0 \<or> \<not> yearlyYieldChart then Inr YearlyNoData
          else (case map_throwing read_properties xs of
                  Inl e \<Rightarrow> Inl e
                | Inr ys \<Rightarrow>
                    Inr (updateYearlyYield StringToNumber currentYear yearlyYieldChart
                           (Some ys))))"

section \<open>Pipeline orchestrator (\<^verbatim>\<open>fetchData\<close>)\<close>

text \<open>
  \<^verbatim>\<open>
  try {
      ...
      errorContainer.innerHTML = '';
      const currentResponse = await fetchWithAuth('/api/current');
      if (!currentResponse.ok && currentResponse.status === 401) {
          throw new Error('Unauthorized: Invalid API credentials');
      }
      const currentData = await currentResponse.json();
      if (currentData.success) { updateMetrics(currentData.data); }
      // the same for '/api/today' with updateTimeSeries
      // and for '/api/yearly-yield' with updateYearlyYield
      document.getElementById('timestamp').textContent = 'Refreshed on: ' + ...;
  } catch (error) {
      errorContainer.innerHTML = `<div class="error">Failed to fetch data: ...</div>`;
  }
  \<close>
  The three awaited fetches are inputs of the model. A fetch either rejects (a network
  failure) or resolves to a response with a status and a body. \<^verbatim>\<open>response.json()\<close>
  rejects when the body is not JSON (\<open>None\<close>); otherwise it resolves to \<^verbatim>\<open>null\<close>, at which
  \<^verbatim>\<open>currentData.success\<close> throws, or to a value with a \<^verbatim>\<open>success\<close> flag (its truthiness;
  false when the value is not an object or has no such property) and a \<^verbatim>\<open>data\<close>
  property.
\<close>

record 'a Envelope =
  success :: bool
  data :: 'a

datatype 'a parsed = JsonNull | JsonValue "'a Envelope"

datatype 'a fetched = Rejected | Response nat "'a parsed option"

text \<open>\<^verbatim>\<open>response.ok\<close>: the status is in the range 200 to 299.\<close>

definition ok :: "nat \<Rightarrow> bool" where
  "ok status = (200 \<le> status \<and> status \<le> 299)"

definition await_json :: "'a fetched \<Rightarrow> js_error + 'a parsed" where
  "await_json r =
     (case r of
        Rejected \<Rightarrow> Inl FetchRejected
      | Response status body \<Rightarrow>
          if \<not> ok status \<and> status = 401 then Inl Unauthorized
          else (case body of None \<Rightarrow> Inl JsonRejected | Some v \<Rightarrow> Inr v))"

text \<open>
  One of the three blocks of the \<^verbatim>\<open>try\<close>: await the response and its body, then
  \<^verbatim>\<open>if (x.success) { update(x.data); }\<close>. The result is the exception that ends the cycle,
  or what the transform handed to the page (\<open>None\<close> when the payload does not report
  success and the transform is not called).
\<close>

definition fetch_step :: "'a fetched \<Rightarrow> ('a \<Rightarrow> js_error + 'r) \<Rightarrow> js_error + 'r option" where
  "fetch_step r update =
     (case await_json r of
        Inl e \<Rightarrow> Inl e
      | Inr JsonNull \<Rightarrow> Inl TypeError
      | Inr (JsonValue x) \<Rightarrow>
          if success x
          then (case update (data x) of Inl e \<Rightarrow> Inl e | Inr v \<Rightarrow> Inr (Some v))
          else Inr None)"

text \<open>
  The browser state the transforms read (which charts exist, the time formatter, the
  string-to-number conversion, the clock's year), and the page: what each transform last
  handed to its chart (\<open>None\<close> before the first time), the error banner and whether the
  refresh timestamp of this cycle was written.
\<close>

record Browser =
  powerGaugeChart :: bool
  powerTimeSeriesChart :: bool
  yearlyYieldChart :: bool
  toLocaleTimeString :: "real \<Rightarrow> string"
  StringToNumber :: "string \<Rightarrow> real option"
  currentYear :: int

record Page =
  metrics :: "MetricsView option"
  timeSeries :: "series_outcome option"
  yearlyYield :: "yearly_outcome option"
  errorContainer :: "js_error option"
  refreshed :: bool

definition fetchData ::
  "Browser \<Rightarrow> Page \<Rightarrow> CurrentData option fetched \<Rightarrow> RawSample option list option fetched
     \<Rightarrow> RawYearRecord option list option fetched \<Rightarrow> Page" where
  "fetchData b page0 currentResponse todayResponse yearlyResponse =
     (let page = page0\<lparr>errorContainer := None, refreshed := False\<rparr> in
      case fetch_step currentResponse (updateMetrics_json (powerGaugeChart b)) of
        Inl e \<Rightarrow> page\<lparr>errorContainer := Some e\<rparr>
      | Inr shown \<Rightarrow>
          let page1 = (case shown of None \<Rightarrow> page | Some v \<Rightarrow> page\<lparr>metrics := Some v\<rparr>)
          in case fetch_step todayResponse
                    (updateTimeSeries_json (toLocaleTimeString b) (powerTimeSeriesChart b)) of
               Inl e \<Rightarrow> page1\<lparr>errorContainer := Some e\<rparr>
             | Inr series \<Rightarrow>
                 let page2 =
                       (case series of None \<Rightarrow> page1
                        | Some v \<Rightarrow> page1\<lparr>timeSeries := Some v\<rparr>)
                 in case fetch_step yearlyResponse
                           (updateYearlyYield_json (StringToNumber b) (currentYear b)
                              (yearlyYieldChart b)) of
                      Inl e \<Rightarrow> page2\<lparr>errorContainer := Some e\<rparr>
                    | Inr yearly \<Rightarrow>
                        let page3 =
                              (case yearly of None \<Rightarrow> page2
                               | Some v \<Rightarrow> page2\<lparr>yearlyYield := Some v\<rparr>)
                        in page3\<lparr>refreshed := True\<rparr>)"

text \<open>
  The page before the first cycle, and a browser in which \<^verbatim>\<open>initializeGauges\<close>,
  \<^verbatim>\<open>initializeTimeSeries\<close> and \<^verbatim>\<open>initializeYearlyYieldChart\<close> have created the three
  charts (with one possible formatter, conversion and year).
\<close>

definition initial_page :: Page where
  "initial_page =
     \<lparr>metrics = None, timeSeries = None, yearlyYield = None, errorContainer = None,
      refreshed = False\<rparr>"

definition charts_ready :: Browser where
  "charts_ready =
     \<lparr>powerGaugeChart = True, powerTimeSeriesChart = True, yearlyYieldChart = True,
      toLocaleTimeString = (\<lambda>ms. ''12:00 AM''), StringToNumber = (\<lambda>s. None),
      currentYear = 2024\<rparr>"

section \<open>Properties of rounding to binary64\<close>

lemma exp_up_range: "e \<le> exp_up x n e \<and> exp_up x n e \<le> e + int n"
  by (induction x n e rule: exp_up.induct) auto

lemma exp_up_lower: "2 powi e \<le> x \<Longrightarrow> 2 powi (exp_up x n e) \<le> x"
  by (induction x n e rule: exp_up.induct) auto

lemma exp_up_upper: "exp_up x n e < e + int n \<Longrightarrow> x < 2 powi (exp_up x n e + 1)"
  by (induction x n e rule: exp_up.induct) (auto split: if_splits)

lemma exp_down_range: "e - int n \<le> exp_down x n e \<and> exp_down x n e \<le> e"
  by (induction x n e rule: exp_down.induct) auto

lemma exp_down_upper: "x < 2 powi (e + 1) \<Longrightarrow> x < 2 powi (exp_down x n e + 1)"
  by (induction x n e rule: exp_down.induct) auto

lemma exp_down_lower: "e - int n < exp_down x n e \<Longrightarrow> 2 powi (exp_down x n e) \<le> x"
  by (induction x n e rule: exp_down.induct) (auto split: if_splits)

lemma exponent_range: "- 1022 \<le> exponent x \<and> exponent x \<le> 1023"
  using exp_up_range [of 0 "\<bar>x\<bar>" 1023] exp_down_range [of 0 1022 "\<bar>x\<bar>"]
  by (auto simp add: exponent_def)

lemma exponent_lower: "- 1022 < exponent x \<Longrightarrow> 2 powi (exponent x) \<le> \<bar>x\<bar>"
  using exp_up_lower [of 0 "\<bar>x\<bar>" 1023] exp_down_lower [of 0 1022 "\<bar>x\<bar>"]
  by (auto simp add: exponent_def split: if_splits)

lemma exponent_upper: "exponent x < 1023 \<Longrightarrow> \<bar>x\<bar> < 2 powi (exponent x + 1)"
  using exp_up_upper [of "\<bar>x\<bar>" 1023 0] exp_down_upper [of "\<bar>x\<bar>" 0 1022]
  by (auto simp add: exponent_def split: if_splits)


lemma exponent_le:
  assumes "\<bar>x\<bar> < 2 powi (t + 1)" "- 1022 \<le> t"
  shows "exponent x \<le> t"
proof (rule ccontr)
  assume "\<not> exponent x \<le> t"
  then have gt: "t + 1 \<le> exponent x" by simp
  with assms(2) have "- 1022 < exponent x" by simp
  then have "2 powi (exponent x) \<le> \<bar>x\<bar>" by (rule exponent_lower)
  moreover have "(2::real) powi (t + 1) \<le> 2 powi (exponent x)"
    using gt by (simp add: power_int_increasing)
  ultimately show False using assms(1) by simp
qed

lemma exponent_mono:
  assumes "\<bar>x\<bar> \<le> \<bar>y\<bar>"
  shows "exponent x \<le> exponent y"
proof (cases "exponent y < 1023")
  case True
  then have "\<bar>y\<bar> < 2 powi (exponent y + 1)" by (rule exponent_upper)
  with assms have "\<bar>x\<bar> < 2 powi (exponent y + 1)" by simp
  then show ?thesis using exponent_range [of y] by (intro exponent_le) auto
next
  case False
  then show ?thesis using exponent_range [of x] by simp
qed

lemma ulp_pos: "0 < ulp x"
  by (simp add: ulp_def)

lemma round_even_nonneg: "0 \<le> q \<Longrightarrow> 0 \<le> round_even q"
  by (auto simp add: round_even_def Let_def)

lemma round_even_of_int: "round_even (of_int k) = k"
  by (simp add: round_even_def)

lemma round_even_error: "\<bar>of_int (round_even q) - q\<bar> \<le> 1 / 2"
proof -
  have "of_int \<lfloor>q\<rfloor> \<le> q" "q < of_int \<lfloor>q\<rfloor> + 1" by linarith+
  then show ?thesis by (auto simp add: round_even_def Let_def)
qed

lemma fl_grid:
  assumes "x = of_int j * 2 powi g" "exponent x - 52 \<le> g"
  shows "fl x = x"
proof -
  define u where "u = exponent x - 52"
  define U where "U = ulp x"
  have U: "U = 2 powi u" "0 < U" by (simp_all add: U_def u_def ulp_def)
  have "(2::real) powi g = 2 powi (g - u) * 2 powi u"
    by (simp add: power_int_add [symmetric])
  moreover have "(2::real) powi (g - u) = of_int (2 ^ nat (g - u))"
    using assms(2) by (simp add: u_def power_int_def)
  ultimately have "x = of_int (j * 2 ^ nat (g - u)) * U"
    by (simp add: assms(1) U(1))
  then have q: "x / U = of_int (j * 2 ^ nat (g - u))"
    using U(2) by simp
  have "fl x = of_int (round_even (x / U)) * U"
    by (simp add: fl_def U_def)
  also have "\<dots> = x / U * U"
    by (simp only: q round_even_of_int)
  also have "\<dots> = x" using U(2) by simp
  finally show ?thesis .
qed

lemma fl_nonneg: "0 \<le> x \<Longrightarrow> 0 \<le> fl x"
  using ulp_pos [of x] by (simp add: fl_def round_even_nonneg)

lemma fl_on_grid: "fl x = of_int (round_even (x / ulp x)) * 2 powi (exponent x - 52)"
  by (simp add: fl_def ulp_def)

lemma fl_error_ulp: "\<bar>fl x - x\<bar> \<le> ulp x / 2"
proof -
  have "fl x - x = (of_int (round_even (x / ulp x)) - x / ulp x) * ulp x"
    using ulp_pos [of x] by (simp add: fl_def algebra_simps)
  then have "\<bar>fl x - x\<bar> = \<bar>of_int (round_even (x / ulp x)) - x / ulp x\<bar> * ulp x"
    using ulp_pos [of x] by (simp add: abs_mult)
  also have "\<dots> \<le> 1 / 2 * ulp x"
    using round_even_error [of "x / ulp x"] ulp_pos [of x]
    by (intro mult_right_mono) auto
  finally show ?thesis by simp
qed

lemma fl_error_rel:
  assumes "2 powi (- 1022) \<le> \<bar>x\<bar>"
  shows "\<bar>fl x - x\<bar> \<le> \<bar>x\<bar> / 2 ^ 53"
proof -
  have low: "2 powi (exponent x) \<le> \<bar>x\<bar>"
  proof (cases "- 1022 < exponent x")
    case True then show ?thesis by (rule exponent_lower)
  next
    case False
    then have "exponent x = - 1022" using exponent_range [of x] by simp
    with assms show ?thesis by simp
  qed
  have "ulp x / 2 = 2 powi (exponent x) / 2 ^ 53"
    by (simp add: ulp_def power_int_diff)
  also have "\<dots> \<le> \<bar>x\<bar> / 2 ^ 53"
    using low by (simp add: divide_right_mono)
  finally show ?thesis using fl_error_ulp [of x] by simp
qed


text \<open>A value with at most 53 significant bits on a grid not finer than the subnormal one.\<close>

lemma fl_representable:
  assumes "x = of_int j * 2 powi g" "\<bar>j\<bar> \<le> 2 ^ 53" "- 1074 \<le> g"
  shows "fl x = x"
proof (cases "\<bar>j\<bar> < 2 ^ 53")
  case True
  have "\<bar>x\<bar> = of_int \<bar>j\<bar> * 2 powi g"
    by (simp add: assms(1) abs_mult)
  also have "\<dots> < 2 ^ 53 * 2 powi g"
  proof -
    have "(of_int \<bar>j\<bar> :: real) < of_int (2 ^ 53)" using True by (simp only: of_int_less_iff)
    then show ?thesis by simp
  qed
  also have "\<dots> = 2 powi (g + 52 + 1)"
    by (simp add: power_int_add)
  finally have "exponent x \<le> g + 52"
    using assms(3) by (intro exponent_le) auto
  then show ?thesis using assms(1) by (intro fl_grid [of x j g]) auto
next
  case False
  with assms(2) have "\<bar>j\<bar> = 2 ^ 53" by simp
  then have "j = 2 ^ 53 \<or> j = - (2 ^ 53)" by linarith
  then have x: "x = of_int (if j < 0 then - 1 else 1) * 2 powi (g + 53)"
    by (auto simp add: assms(1) power_int_add)
  have "\<bar>x\<bar> = 2 powi (g + 53)"
    by (simp add: x abs_mult)
  also have "\<dots> < 2 powi (g + 53 + 1)"
    by (simp add: power_int_add)
  finally have "exponent x \<le> g + 53"
    using assms(3) by (intro exponent_le) auto
  then show ?thesis using x by (intro fl_grid [of x _ "g + 53"]) auto
qed

lemma fl_numeral_examples: "fl 100 = 100" "fl 60 = 60" "fl 80 = 80" "fl 0 = 0"
  using fl_representable [of 100 100 0] fl_representable [of 60 60 0]
    fl_representable [of 80 80 0] fl_representable [of 0 0 0]
  by simp_all

lemma fl_idem:
  assumes "\<bar>fl x\<bar> < 2 ^ 1024"
  shows "fl (fl x) = fl x"
proof -
  define k where "k = round_even (x / ulp x)"
  have fx: "fl x = of_int k * 2 powi (exponent x - 52)"
    by (simp add: fl_on_grid k_def)
  have "\<bar>k\<bar> \<le> 2 ^ 53"
  proof (cases "exponent x < 1023")
    case True
    then have "\<bar>x\<bar> < 2 powi (exponent x + 1)" by (rule exponent_upper)
    then have "\<bar>x\<bar> / ulp x < 2 powi (exponent x + 1) / ulp x"
      using ulp_pos [of x] by (simp add: divide_strict_right_mono)
    also have "\<dots> = 2 ^ 53"
      by (simp add: ulp_def power_int_diff [symmetric] flip: power_int_diff)
    finally have "\<bar>x / ulp x\<bar> < 2 ^ 53" using ulp_pos [of x] by simp
    moreover have "\<bar>of_int k - x / ulp x\<bar> \<le> 1 / 2"
      unfolding k_def by (rule round_even_error)
    ultimately have "\<bar>of_int k :: real\<bar> < 2 ^ 53 + 1" by linarith
    then have "(of_int \<bar>k\<bar> :: real) < of_int (2 ^ 53 + 1)" by simp
    then have "\<bar>k\<bar> < 2 ^ 53 + 1" by (simp only: of_int_less_iff)
    then show ?thesis by simp
  next
    case False
    then have e: "exponent x = 1023" using exponent_range [of x] by simp
    have "\<bar>fl x\<bar> = of_int \<bar>k\<bar> * 2 ^ 971"
      by (simp add: fx e abs_mult)
    with assms have "(of_int \<bar>k\<bar> :: real) * 2 ^ 971 < 2 ^ 53 * 2 ^ 971" by simp
    then have "(of_int \<bar>k\<bar> :: real) < of_int (2 ^ 53)" by simp
    then have "\<bar>k\<bar> < 2 ^ 53" by (simp only: of_int_less_iff)
    then show ?thesis by simp
  qed
  then show ?thesis
    using fx exponent_range [of x] by (intro fl_representable [of "fl x" k "exponent x - 52"]) auto
qed

text \<open>A difference of two doubles that is no larger than either of them is a double.\<close>

lemma fl_sub_exact:
  assumes a: "fl a = a" and b: "fl b = b"
    and small: "\<bar>a - b\<bar> \<le> \<bar>a\<bar>" "\<bar>a - b\<bar> \<le> \<bar>b\<bar>"
  shows "fl (a - b) = a - b"
proof -
  define ea where "ea = exponent a - 52"
  define eb where "eb = exponent b - 52"
  define g where "g = min ea eb"
  obtain ka where ka: "a = of_int ka * 2 powi ea"
    using fl_on_grid [of a] a by (auto simp add: ea_def)
  obtain kb where kb: "b = of_int kb * 2 powi eb"
    using fl_on_grid [of b] b by (auto simp add: eb_def)
  have pa: "(2::real) powi ea = of_int (2 ^ nat (ea - g)) * 2 powi g"
  proof -
    have "(2::real) powi ea = 2 powi (ea - g) * 2 powi g"
      by (simp add: power_int_add [symmetric])
    moreover have "(2::real) powi (ea - g) = of_int (2 ^ nat (ea - g))"
      by (simp add: g_def power_int_def)
    ultimately show ?thesis by simp
  qed
  have pb: "(2::real) powi eb = of_int (2 ^ nat (eb - g)) * 2 powi g"
  proof -
    have "(2::real) powi eb = 2 powi (eb - g) * 2 powi g"
      by (simp add: power_int_add [symmetric])
    moreover have "(2::real) powi (eb - g) = of_int (2 ^ nat (eb - g))"
      by (simp add: g_def power_int_def)
    ultimately show ?thesis by simp
  qed
  have "a - b = of_int (ka * 2 ^ nat (ea - g) - kb * 2 ^ nat (eb - g)) * 2 powi g"
    by (subst ka, subst kb, subst pa, subst pb) (simp add: algebra_simps)
  moreover have "exponent (a - b) - 52 \<le> g"
    using exponent_mono [OF small(1)] exponent_mono [OF small(2)]
    by (simp add: g_def ea_def eb_def)
  ultimately show ?thesis by (rule fl_grid)
qed


section \<open>Properties of the gauge banding\<close>

lemma powerPercentage64_double:
  assumes "\<bar>fl (fl (r / m) * 100)\<bar> < 2 ^ 1024"
  shows "fl (powerPercentage64 r m) = powerPercentage64 r m"
proof -
  have "fl (fl (fl (r / m) * 100)) = fl (fl (r / m) * 100)"
    using assms by (rule fl_idem)
  then show ?thesis
    by (simp add: powerPercentage64_def min_def fl_numeral_examples)
qed

lemma gaugeBands64_exact:
  assumes "\<bar>fl (fl (r / m) * 100)\<bar> < 2 ^ 1024"
  shows "gaugeBands64 r m =
     (let p = powerPercentage64 r m in
      if p \<le> 60 then
        \<lparr>normalPercentage = p, warningPercentage = 0, criticalPercentage = 0,
         remaining = fl (100 - p)\<rparr>
      else if p \<le> 80 then
        \<lparr>normalPercentage = 60, warningPercentage = p - 60, criticalPercentage = 0,
         remaining = fl (100 - p)\<rparr>
      else
        \<lparr>normalPercentage = 60, warningPercentage = 20, criticalPercentage = p - 80,
         remaining = fl (100 - p)\<rparr>)"
proof -
  define p where "p = powerPercentage64 r m"
  have d: "fl p = p" unfolding p_def using assms by (rule powerPercentage64_double)
  have le: "p \<le> 100" by (simp add: p_def powerPercentage64_def)
  have w: "fl (p - 60) = p - 60" if "60 < p" "p \<le> 80"
    using that by (intro fl_sub_exact d fl_numeral_examples) auto
  have c: "fl (p - 80) = p - 80" if "80 < p"
    using that le by (intro fl_sub_exact d fl_numeral_examples) auto
  show ?thesis
    using w c by (auto simp add: gaugeBands64_def Let_def p_def [symmetric])
qed

theorem gaugeBands64_sum_counterexample:
  "0 < maxPower
   \<and> gaugeBands64 (- 4499) maxPower
       = \<lparr>normalPercentage = - (7035310667895785 / 2 ^ 46), warningPercentage = 0,
          criticalPercentage = 0, remaining = 1759023135707773 / 2 ^ 43\<rparr>
   \<and> normalPercentage (gaugeBands64 (- 4499) maxPower)
       + warningPercentage (gaugeBands64 (- 4499) maxPower)
       + criticalPercentage (gaugeBands64 (- 4499) maxPower)
       + remaining (gaugeBands64 (- 4499) maxPower) = 100 - 1 / 2 ^ 46
   \<and> sum64 (gaugeBands64 (- 4499) maxPower) = 100 - 1 / 2 ^ 46
   \<and> normalPercentage (gaugeBands64 (- 4499) maxPower)
       + warningPercentage (gaugeBands64 (- 4499) maxPower)
       + criticalPercentage (gaugeBands64 (- 4499) maxPower)
       + remaining (gaugeBands64 (- 4499) maxPower) \<noteq> 100"
proof -
  have v: "gaugeBands64 (- 4499) maxPower
       = \<lparr>normalPercentage = - (7035310667895785 / 2 ^ 46), warningPercentage = 0,
          criticalPercentage = 0, remaining = 1759023135707773 / 2 ^ 43\<rparr>"
    by code_simp
  have n: "fl (- (7035310667895785 / 2 ^ 46)) = - (7035310667895785 / 2 ^ 46)"
    by (rule fl_representable [of _ "- 7035310667895785" "- 46"])
      (simp_all add: power_int_minus field_simps)
  have s: "fl (100 - 1 / 2 ^ 46) = 100 - 1 / 2 ^ 46"
    by (rule fl_representable [of _ "100 * 2 ^ 46 - 1" "- 46"])
      (simp_all add: power_int_minus field_simps)
  have e: "- (7035310667895785 / 2 ^ 46) + 1759023135707773 / 2 ^ 43 = (100 - 1 / 2 ^ 46 :: real)"
    by simp
  have js: "sum64 (gaugeBands64 (- 4499) maxPower) = 100 - 1 / 2 ^ 46"
    unfolding v sum64_def by (simp only: GaugeBands.simps add_0_right n e s)
  show ?thesis
    unfolding js unfolding v by (simp add: maxPower_def)
qed

text \<open>
  C1 (amended). For every reading \<open>r\<close> and every maximum \<open>m > 0\<close> for which the
  percentage is a finite number, the remaining slice is \<open>100 - min (r / m * 100) 100\<close> as
  the code computes it, each operation rounded to binary64, and the other three slices
  add up to that percentage exactly. The four slices therefore sum to 100 up to the
  rounding of the one subtraction \<open>100 - percentage\<close>: the sum differs from 100 by at most
  \<open>|100 - percentage| / 2^53\<close>, and it is exactly 100, also when added in binary64,
  whenever the percentage is at least 50.
\<close>

theorem gaugeBands64_sum:
  assumes "0 < m" and "\<bar>fl (fl (r / m) * 100)\<bar> < 2 ^ 1024"
  shows "remaining (gaugeBands64 r m) = fl (100 - min (fl (fl (r / m) * 100)) 100)
    \<and> normalPercentage (gaugeBands64 r m) + warningPercentage (gaugeBands64 r m)
         + criticalPercentage (gaugeBands64 r m) = min (fl (fl (r / m) * 100)) 100
    \<and> \<bar>normalPercentage (gaugeBands64 r m) + warningPercentage (gaugeBands64 r m)
         + criticalPercentage (gaugeBands64 r m) + remaining (gaugeBands64 r m) - 100\<bar>
        \<le> \<bar>100 - min (fl (fl (r / m) * 100)) 100\<bar> / 2 ^ 53
    \<and> (50 \<le> min (fl (fl (r / m) * 100)) 100 \<longrightarrow>
         normalPercentage (gaugeBands64 r m) + warningPercentage (gaugeBands64 r m)
           + criticalPercentage (gaugeBands64 r m) + remaining (gaugeBands64 r m) = 100
         \<and> sum64 (gaugeBands64 r m) = 100)"
proof -
  define p where "p = powerPercentage64 r m"
  have p: "min (fl (fl (r / m) * 100)) 100 = p"
    by (simp add: p_def powerPercentage64_def)
  have d: "fl p = p" unfolding p_def using assms(2) by (rule powerPercentage64_double)
  have le: "p \<le> 100" by (simp add: p_def powerPercentage64_def)
  note bands = gaugeBands64_exact [OF assms(2), folded p_def]
  have rem: "remaining (gaugeBands64 r m) = fl (100 - p)"
    by (simp add: bands Let_def)
  have filled: "normalPercentage (gaugeBands64 r m) + warningPercentage (gaugeBands64 r m)
           + criticalPercentage (gaugeBands64 r m) = p"
    by (simp add: bands Let_def)
  have exact: "fl (100 - p) = 100 - p" if "50 \<le> p"
    using that le by (intro fl_sub_exact d fl_numeral_examples) auto
  have err: "\<bar>p + fl (100 - p) - 100\<bar> \<le> \<bar>100 - p\<bar> / 2 ^ 53"
  proof (cases "50 \<le> p")
    case True
    then show ?thesis by (simp add: exact)
  next
    case False
    have "(2::real) powi (- 1022) \<le> 2 powi 0"
      by (intro power_int_increasing) auto
    also have "\<dots> \<le> \<bar>100 - p\<bar>" using False by simp
    finally have "\<bar>fl (100 - p) - (100 - p)\<bar> \<le> \<bar>100 - p\<bar> / 2 ^ 53"
      by (rule fl_error_rel)
    moreover have "p + fl (100 - p) - 100 = fl (100 - p) - (100 - p)" by simp
    ultimately show ?thesis by (simp only:)
  qed
  have js: "sum64 (gaugeBands64 r m) = 100" if "50 \<le> p"
  proof -
    have "sum64 (gaugeBands64 r m) = fl (p + fl (100 - p))"
      by (simp add: sum64_def bands Let_def d fl_numeral_examples)
    also have "\<dots> = 100" using that by (simp add: exact fl_numeral_examples)
    finally show ?thesis .
  qed
  show ?thesis
    unfolding p using rem filled err exact js by simp
qed




theorem gaugeBands64_sum_witness:
  "(0::real) < 4500
   \<and> \<bar>fl (fl (3000 / 4500) * 100)\<bar> < 2 ^ 1024
   \<and> 50 \<le> min (fl (fl (3000 / 4500) * 100)) 100
   \<and> remaining (gaugeBands64 3000 4500) = 1172812402961067 / 2 ^ 45
   \<and> normalPercentage (gaugeBands64 3000 4500) + warningPercentage (gaugeBands64 3000 4500)
       + criticalPercentage (gaugeBands64 3000 4500) = 2345624805922133 / 2 ^ 45
   \<and> normalPercentage (gaugeBands64 3000 4500) + warningPercentage (gaugeBands64 3000 4500)
       + criticalPercentage (gaugeBands64 3000 4500) + remaining (gaugeBands64 3000 4500) = 100
   \<and> sum64 (gaugeBands64 3000 4500) = 100"
proof -
  have m: "(0::real) < 4500" by simp
  have p: "fl (fl (3000 / 4500) * 100) = 2345624805922133 / 2 ^ 45"
    by code_simp
  have r: "fl (100 - 2345624805922133 / 2 ^ 45) = 1172812402961067 / 2 ^ 45"
    by code_simp
  have fin: "\<bar>fl (fl (3000 / 4500) * 100)\<bar> < 2 ^ 1024"
    unfolding p by simp
  have big: "50 \<le> min (fl (fl (3000 / 4500) * 100)) 100"
    unfolding p by simp
  have mn: "min (fl (fl (3000 / 4500) * 100)) 100 = 2345624805922133 / 2 ^ 45"
    unfolding p by simp
  note sums = gaugeBands64_sum [OF m fin, unfolded mn r]
  have "50 \<le> (2345624805922133 / 2 ^ 45 :: real)" by simp
  with sums have rest:
    "remaining (gaugeBands64 3000 4500) = 1172812402961067 / 2 ^ 45
     \<and> normalPercentage (gaugeBands64 3000 4500) + warningPercentage (gaugeBands64 3000 4500)
         + criticalPercentage (gaugeBands64 3000 4500) = 2345624805922133 / 2 ^ 45
     \<and> normalPercentage (gaugeBands64 3000 4500) + warningPercentage (gaugeBands64 3000 4500)
         + criticalPercentage (gaugeBands64 3000 4500) + remaining (gaugeBands64 3000 4500) = 100
     \<and> sum64 (gaugeBands64 3000 4500) = 100"
    by simp
  show ?thesis by (rule conjI [OF m conjI [OF fin conjI [OF big rest]]])
qed

theorem gaugeBands_negative_counterexample:
  "0 < maxPower \<and> normalPercentage (gaugeBands (-450) maxPower) = -10
   \<and> \<not> 0 \<le> normalPercentage (gaugeBands (-450) maxPower)"
  by (simp add: gaugeBands_def powerPercentage_def maxPower_def Let_def)

text \<open>
  C8 (amended). For every reading \<open>r\<close> and maximum \<open>m > 0\<close> the warning, critical and
  remaining slices are at least 0, and the normal slice is at least 0 exactly when the
  reading is: the source clamps the percentage at 100 from above and not at 0 from below.
\<close>

theorem gaugeBands_nonneg_iff:
  assumes "0 < m"
  shows "0 \<le> warningPercentage (gaugeBands r m)
         \<and> 0 \<le> criticalPercentage (gaugeBands r m)
         \<and> 0 \<le> remaining (gaugeBands r m)
         \<and> (0 \<le> normalPercentage (gaugeBands r m) \<longleftrightarrow> 0 \<le> r)"
proof -
  have sgn: "0 \<le> r / m * 100 \<longleftrightarrow> 0 \<le> r"
    using assms by (simp add: zero_le_mult_iff zero_le_divide_iff)
  have le: "powerPercentage r m \<le> 100"
    by (simp add: powerPercentage_def)
  have pos: "0 \<le> powerPercentage r m \<longleftrightarrow> 0 \<le> r"
  proof (cases "r / m * 100 \<le> 100")
    case True
    then have "powerPercentage r m = r / m * 100"
      unfolding powerPercentage_def by (rule min_absorb1)
    with sgn show ?thesis by simp
  next
    case False
    then have big: "100 < r / m * 100" by simp
    then have "powerPercentage r m = 100"
      unfolding powerPercentage_def by (simp only: min_def not_le [symmetric] if_False)
    moreover from big have "0 \<le> r / m * 100" by linarith
    ultimately show ?thesis using sgn by simp
  qed
  show ?thesis
    using le pos by (auto simp add: gaugeBands_def Let_def)
qed

theorem gaugeBands_nonneg_iff_witness:
  "(0::real) < 4500
   \<and> 0 \<le> warningPercentage (gaugeBands 4000 4500)
   \<and> 0 \<le> criticalPercentage (gaugeBands 4000 4500)
   \<and> 0 \<le> remaining (gaugeBands 4000 4500)
   \<and> 0 \<le> normalPercentage (gaugeBands 4000 4500)
   \<and> criticalPercentage (gaugeBands 4000 4500) = 80 / 9"
proof -
  have m: "(0::real) < 4500" by simp
  have c: "criticalPercentage (gaugeBands 4000 4500) = 80 / 9"
    by (simp add: gaugeBands_def powerPercentage_def Let_def)
  show ?thesis using m c gaugeBands_nonneg_iff [OF m, of 4000] by simp
qed

text \<open>
  With the roundings of binary64 the slices of a reading that is not negative are not
  negative either.
\<close>

lemma gaugeBands64_nonneg:
  assumes "0 < m" "0 \<le> r" "\<bar>fl (fl (r / m) * 100)\<bar> < 2 ^ 1024"
  shows "0 \<le> normalPercentage (gaugeBands64 r m)
    \<and> 0 \<le> warningPercentage (gaugeBands64 r m)
    \<and> 0 \<le> criticalPercentage (gaugeBands64 r m)
    \<and> 0 \<le> remaining (gaugeBands64 r m)"
proof -
  have "0 \<le> fl (r / m)" using assms(1,2) by (intro fl_nonneg) simp
  then have "0 \<le> fl (fl (r / m) * 100)" by (intro fl_nonneg) simp
  then have p: "0 \<le> powerPercentage64 r m" "powerPercentage64 r m \<le> 100"
    by (simp_all add: powerPercentage64_def)
  then have "0 \<le> fl (100 - powerPercentage64 r m)" by (intro fl_nonneg) simp
  with p show ?thesis
    by (auto simp add: gaugeBands64_exact [OF assms(3)] Let_def)
qed

section \<open>Properties of the time-series assembler\<close>

text \<open>With a comparator that subtracts keys, the sort is the library's stable sort by key.\<close>

lemma js_insert_key: "js_insert (\<lambda>a b. f a - f b) x ys = insort_key f x ys"
  by (induction ys) auto

lemma js_sort_key: "js_sort (\<lambda>a b. f a - f b) xs = sort_key f xs"
  by (induction xs) (simp_all add: js_sort_def sort_key_def js_insert_key)

lemma sortedData_sort_key: "sortedData xs = sort_key TimeStamp xs"
  by (simp add: sortedData_def js_sort_key)

text \<open>
  C6. For every non-empty array of samples the series handed to the chart is ordered by
  ascending timestamp whatever the input order (a permutation of the input), samples
  with equal timestamps keep their original relative order, and labels and values are
  parallel: position \<open>i\<close> of both comes from the \<open>i\<close>-th sample of the sorted array.
\<close>

theorem updateTimeSeries_sorted_stable:
  assumes "xs \<noteq> []"
  shows "updateTimeSeries fmt True (Some xs) = SeriesUpdated (labels fmt xs) (powers xs)
    \<and> sorted (map TimeStamp (sortedData xs))
    \<and> mset (sortedData xs) = mset xs
    \<and> (\<forall>k. filter (\<lambda>s. TimeStamp s = k) (sortedData xs)
             = filter (\<lambda>s. TimeStamp s = k) xs)
    \<and> length (labels fmt xs) = length xs
    \<and> length (powers xs) = length xs
    \<and> (\<forall>i<length xs.
          labels fmt xs ! i = fmt (TimeStamp (sortedData xs ! i) * 1000)
          \<and> powers xs ! i = Math_round (or_zero (Power (sortedData xs ! i))))"
proof -
  have len: "length (sortedData xs) = length xs"
    by (simp add: sortedData_sort_key)
  have upd: "updateTimeSeries fmt True (Some xs) = SeriesUpdated (labels fmt xs) (powers xs)"
    using assms by (simp add: updateTimeSeries_def)
  have srt: "sorted (map TimeStamp (sortedData xs))"
    by (simp add: sortedData_sort_key)
  have perm: "mset (sortedData xs) = mset xs"
    by (simp add: sortedData_sort_key)
  have stab: "\<forall>k. filter (\<lambda>s. TimeStamp s = k) (sortedData xs)
                    = filter (\<lambda>s. TimeStamp s = k) xs"
    by (simp add: sortedData_sort_key sort_key_stable)
  have par: "\<forall>i<length xs.
               labels fmt xs ! i = fmt (TimeStamp (sortedData xs ! i) * 1000)
               \<and> powers xs ! i = Math_round (or_zero (Power (sortedData xs ! i)))"
    by (simp add: labels_def powers_def len)
  show ?thesis
    using len upd srt perm stab par by (simp add: labels_def powers_def)
qed

theorem updateTimeSeries_sorted_stable_witness:
  "[\<lparr>TimeStamp = 100, Power = Some 200\<rparr>, \<lparr>TimeStamp = 50, Power = Some 300\<rparr>,
    \<lparr>TimeStamp = 100, Power = None\<rparr>] \<noteq> []
   \<and> updateTimeSeries (\<lambda>ms. if ms = 50000 then ''12:00 AM'' else ''12:01 AM'') True
       (Some [\<lparr>TimeStamp = 100, Power = Some 200\<rparr>, \<lparr>TimeStamp = 50, Power = Some 300\<rparr>,
              \<lparr>TimeStamp = 100, Power = None\<rparr>])
       = SeriesUpdated [''12:00 AM'', ''12:01 AM'', ''12:01 AM''] [300, 200, 0]
   \<and> sortedData [\<lparr>TimeStamp = 100, Power = Some 200\<rparr>, \<lparr>TimeStamp = 50, Power = Some 300\<rparr>,
                 \<lparr>TimeStamp = 100, Power = None\<rparr>]
       = [\<lparr>TimeStamp = 50, Power = Some 300\<rparr>, \<lparr>TimeStamp = 100, Power = Some 200\<rparr>,
          \<lparr>TimeStamp = 100, Power = None\<rparr>]"
proof -
  let ?xs = "[\<lparr>TimeStamp = 100, Power = Some 200\<rparr>, \<lparr>TimeStamp = 50, Power = Some 300\<rparr>,
              \<lparr>TimeStamp = 100, Power = None\<rparr>]"
  let ?fmt = "\<lambda>ms::real. if ms = 50000 then ''12:00 AM'' else ''12:01 AM''"
  have ne: "?xs \<noteq> []" by simp
  have sd: "sortedData ?xs
       = [\<lparr>TimeStamp = 50, Power = Some 300\<rparr>, \<lparr>TimeStamp = 100, Power = Some 200\<rparr>,
          \<lparr>TimeStamp = 100, Power = None\<rparr>]"
    by (simp add: sortedData_def js_sort_def)
  have lb: "labels ?fmt ?xs = [''12:00 AM'', ''12:01 AM'', ''12:01 AM'']"
    by (simp add: labels_def sd)
  have pw: "powers ?xs = [300, 200, 0]"
    by (simp add: powers_def sd or_zero_def Math_round_def)
  show ?thesis
    using ne sd lb pw updateTimeSeries_sorted_stable [OF ne, of ?fmt] by simp
qed

theorem powers_negative_counterexample:
  "updateTimeSeries (\<lambda>ms. ''12:00 AM'') True (Some [\<lparr>TimeStamp = 50, Power = Some (-5)\<rparr>])
     = SeriesUpdated [''12:00 AM''] [-5]
   \<and> \<not> 0 \<le> hd (powers [\<lparr>TimeStamp = 50, Power = Some (-5)\<rparr>])"
  by (simp add: updateTimeSeries_def labels_def powers_def sortedData_def js_sort_def
      or_zero_def Math_round_def)

text \<open>
  C9 (amended). Every emitted power value is the integer \<^verbatim>\<open>Math.round(item.Power || 0)\<close>
  of its sample; it is at least 0 exactly when the raw power is missing or at least
  \<open>-1/2\<close>, and a sample without a power value gives exactly 0. The source has no clamp
  for a negative raw power.
\<close>

theorem powers_sign:
  "length (powers xs) = length xs
   \<and> (\<forall>i<length xs.
         powers xs ! i = Math_round (or_zero (Power (sortedData xs ! i)))
         \<and> (0 \<le> powers xs ! i
              \<longleftrightarrow> (case Power (sortedData xs ! i) of None \<Rightarrow> True | Some p \<Rightarrow> - 1 / 2 \<le> p))
         \<and> (Power (sortedData xs ! i) = None \<longrightarrow> powers xs ! i = 0))"
proof -
  have len: "length (sortedData xs) = length xs"
    by (simp add: sortedData_sort_key)
  have sgn: "(0 \<le> Math_round (or_zero p))
               = (case p of None \<Rightarrow> True | Some x \<Rightarrow> - 1 / 2 \<le> x)" for p
    by (auto simp add: Math_round_def or_zero_def split: option.splits)
  have missing: "Math_round (or_zero None) = 0"
    by (simp add: Math_round_def or_zero_def)
  show ?thesis
    using len sgn missing by (simp add: powers_def)
qed

theorem powers_sign_witness:
  "powers [\<lparr>TimeStamp = 2, Power = None\<rparr>, \<lparr>TimeStamp = 1, Power = Some (-1 / 2)\<rparr>,
           \<lparr>TimeStamp = 3, Power = Some (5 / 2)\<rparr>] = [0, 0, 3]
   \<and> (0::nat) < length [\<lparr>TimeStamp = 2, Power = None\<rparr>, \<lparr>TimeStamp = 1, Power = Some (-1 / 2)\<rparr>,
           \<lparr>TimeStamp = 3, Power = Some (5 / 2)\<rparr>]
   \<and> Power (sortedData [\<lparr>TimeStamp = 2, Power = None\<rparr>, \<lparr>TimeStamp = 1, Power = Some (-1 / 2)\<rparr>,
           \<lparr>TimeStamp = 3, Power = Some (5 / 2)\<rparr>] ! 1) = None
   \<and> powers [\<lparr>TimeStamp = 2, Power = None\<rparr>, \<lparr>TimeStamp = 1, Power = Some (-1 / 2)\<rparr>,
           \<lparr>TimeStamp = 3, Power = Some (5 / 2)\<rparr>] ! 1 = 0"
proof -
  let ?xs = "[\<lparr>TimeStamp = 2, Power = None\<rparr>, \<lparr>TimeStamp = 1, Power = Some (-1 / 2)\<rparr>,
           \<lparr>TimeStamp = 3, Power = Some (5 / 2)\<rparr>]"
  have sd: "sortedData ?xs = [\<lparr>TimeStamp = 1, Power = Some (-1 / 2)\<rparr>,
           \<lparr>TimeStamp = 2, Power = None\<rparr>, \<lparr>TimeStamp = 3, Power = Some (5 / 2)\<rparr>]"
    by (simp add: sortedData_def js_sort_def)
  have pw: "powers ?xs = [0, 0, 3]"
    unfolding powers_def sd by (simp add: or_zero_def Math_round_def)
  have i: "(1::nat) < length ?xs" by simp
  have none: "Power (sortedData ?xs ! 1) = None" unfolding sd by simp
  from powers_sign [of ?xs] i none have "powers ?xs ! 1 = 0" by blast
  with pw none show ?thesis by simp
qed

section \<open>Properties of the yearly yield reducer\<close>

lemma length_differences: "length (differences s) = length s"
  by (simp add: differences_def)

lemma differences_nth:
  "i < length s \<Longrightarrow>
     differences s ! i
       = (if i = 0 then kwh (s ! i) else max 0 (kwh (s ! i) - kwh (s ! (i - 1))))"
  by (simp add: differences_def nth_enumerate_eq)

text \<open>
  C2. For every sequence of normalized year entries (sorted by year or not) the delta
  series has the length of the year series, its first element is the first cumulative
  kWh value as it is, and for every index \<open>i > 0\<close> the delta is
  \<open>max 0 (kwh[i] - kwh[i-1])\<close>.
\<close>

theorem differences_spec:
  "length (differences s) = length s
   \<and> (s \<noteq> [] \<longrightarrow> differences s ! 0 = kwh (s ! 0))
   \<and> (\<forall>i. 0 < i \<and> i < length s \<longrightarrow>
          differences s ! i = max 0 (kwh (s ! i) - kwh (s ! (i - 1))))"
  using differences_nth [of _ s] length_differences [of s]
  by (auto simp add: neq_Nil_conv)

theorem differences_spec_witness:
  "sorted_entries (\<lambda>s. None)
     (normalized [empty_record\<lparr>item_year := Some (JNum 2023), item_yield := Some 1500000\<rparr>,
                  empty_record\<lparr>item_Year := Some (JNum 2022), item_Total := Some 1000000\<rparr>,
                  empty_record\<lparr>item_year := Some (JNum 2024), item_yield := Some 1200000\<rparr>])
     = [\<lparr>year = JNum 2022, kwh = 1000\<rparr>, \<lparr>year = JNum 2023, kwh = 1500\<rparr>,
        \<lparr>year = JNum 2024, kwh = 1200\<rparr>]
   \<and> [\<lparr>year = JNum 2022, kwh = 1000\<rparr>, \<lparr>year = JNum 2023, kwh = 1500\<rparr>,
       \<lparr>year = JNum 2024, kwh = 1200\<rparr>] \<noteq> []
   \<and> (0::nat) < 2
   \<and> 2 < length [\<lparr>year = JNum 2022, kwh = 1000\<rparr>, \<lparr>year = JNum 2023, kwh = 1500\<rparr>,
                 \<lparr>year = JNum 2024, kwh = 1200\<rparr>]
   \<and> differences [\<lparr>year = JNum 2022, kwh = 1000\<rparr>, \<lparr>year = JNum 2023, kwh = 1500\<rparr>,
                  \<lparr>year = JNum 2024, kwh = 1200\<rparr>] = [1000, 500, 0]"
proof -
  let ?s = "[\<lparr>year = JNum 2022, kwh = 1000\<rparr>, \<lparr>year = JNum 2023, kwh = 1500\<rparr>,
             \<lparr>year = JNum 2024, kwh = 1200\<rparr>]"
  have srt: "sorted_entries (\<lambda>s. None)
     (normalized [empty_record\<lparr>item_year := Some (JNum 2023), item_yield := Some 1500000\<rparr>,
                  empty_record\<lparr>item_Year := Some (JNum 2022), item_Total := Some 1000000\<rparr>,
                  empty_record\<lparr>item_year := Some (JNum 2024), item_yield := Some 1200000\<rparr>])
     = ?s"
    by (simp add: sorted_entries_def js_sort_def compareYears_def Number_def normalized_def
        normalizeItem_def empty_record_def nullish_def or_zero_def Math_round_def)
  have ne: "?s \<noteq> []" by simp
  have i2: "(0::nat) < 2 \<and> 2 < length ?s" by simp
  have len: "length (differences ?s) = 3"
    using differences_spec [of ?s] by simp
  have d0: "differences ?s ! 0 = 1000"
    using differences_spec [of ?s] ne by simp
  have d1: "differences ?s ! 1 = 500"
    using differences_spec [of ?s] by simp
  have d2: "differences ?s ! 2 = 0"
    using differences_spec [of ?s] i2 by simp
  have "differences ?s = [1000, 500, 0]"
  proof (rule nth_equalityI)
    show "length (differences ?s) = length [1000, 500, 0::int]" using len by simp
  next
    fix i assume "i < length (differences ?s)"
    then have "i = 0 \<or> i = 1 \<or> i = 2" using len by auto
    then show "differences ?s ! i = [1000, 500, 0] ! i" using d0 d1 d2 by auto
  qed
  with srt ne i2 show ?thesis by simp
qed

lemma reduce_add_sum: "reduce_add xs = sum_list xs"
proof -
  have "foldl (\<lambda>a b. a + b) a xs = a + sum_list xs" for a :: int
    by (induction xs arbitrary: a) simp_all
  then show ?thesis by (simp add: reduce_add_def)
qed

lemma enumerate_filter_index:
  "map snd (filter (\<lambda>(idx, d). Q idx) (enumerate 0 ds))
     = map ((!) ds) (filter Q [0..<length ds])"
proof -
  have "enumerate 0 ds = map (\<lambda>i. (i, ds ! i)) [0..<length ds]"
    by (rule nth_equalityI) (simp_all add: nth_enumerate_eq)
  then show ?thesis by (simp add: filter_map comp_def)
qed

lemma full_index:
  "fullYearDifferences p cy s
     = map ((!) (differences s))
         (filter (\<lambda>i. Number p (year (s ! i)) \<noteq> Some (real_of_int cy)) [1..<length s])"
proof -
  let ?P = "\<lambda>i. Number p (year (s ! i)) \<noteq> Some (real_of_int cy)"
  have "fullYearDifferences p cy s
          = map ((!) (differences s)) (filter (\<lambda>i. 0 < i \<and> ?P i) [0..<length s])"
    unfolding fullYearDifferences_def
    using enumerate_filter_index [of "\<lambda>i. 0 < i \<and> ?P i" "differences s"]
    by (simp add: length_differences)
  also have "filter (\<lambda>i. 0 < i \<and> ?P i) [0..<length s] = filter ?P [1..<length s]"
  proof (cases "s = []")
    case True
    then show ?thesis by simp
  next
    case False
    then have "0 < length s" by simp
    then have u: "[0..<length s] = 0 # [Suc 0..<length s]" by (rule upt_conv_Cons)
    have "filter (\<lambda>i. 0 < i \<and> ?P i) [Suc 0..<length s] = filter ?P [Suc 0..<length s]"
      by (rule filter_cong) auto
    with u show ?thesis by simp
  qed
  finally show ?thesis .
qed

text \<open>
  C3. For every non-empty sorted year sequence and current calendar year, the mean is
  the arithmetic mean of the deltas of the full years, the entries at an index
  \<open>i \<ge> 1\<close> whose year (as a number) is not the current year; when no entry is a full
  year it is the mean of all deltas.
\<close>

theorem meanValue_full_years:
  assumes "s \<noteq> []"
  shows "meanValue p cy s =
     (let full = map ((!) (differences s))
                   (filter (\<lambda>i. Number p (year (s ! i)) \<noteq> Some (real_of_int cy))
                      [1..<length s])
      in if full = [] then real_of_int (sum_list (differences s)) / real (length s)
         else real_of_int (sum_list full) / real (length full))"
proof -
  have len: "0 < length (differences s)"
    using assms by (simp add: length_differences)
  show ?thesis
    unfolding meanValue_def Let_def full_index reduce_add_sum
    using len by (simp add: length_differences)
qed

theorem meanValue_full_years_witness:
  "[\<lparr>year = JNum 2020, kwh = 100\<rparr>, \<lparr>year = JNum 2021, kwh = 400\<rparr>,
    \<lparr>year = JNum 2022, kwh = 900\<rparr>] \<noteq> []
   \<and> differences [\<lparr>year = JNum 2020, kwh = 100\<rparr>, \<lparr>year = JNum 2021, kwh = 400\<rparr>,
                  \<lparr>year = JNum 2022, kwh = 900\<rparr>] = [100, 300, 500]
   \<and> meanValue (\<lambda>s. None) 2022
       [\<lparr>year = JNum 2020, kwh = 100\<rparr>, \<lparr>year = JNum 2021, kwh = 400\<rparr>,
        \<lparr>year = JNum 2022, kwh = 900\<rparr>] = 300
   \<and> meanValue (\<lambda>s. None) 2021
       [\<lparr>year = JNum 2020, kwh = 100\<rparr>, \<lparr>year = JNum 2021, kwh = 400\<rparr>] = 200"
proof -
  let ?s = "[\<lparr>year = JNum 2020, kwh = 100\<rparr>, \<lparr>year = JNum 2021, kwh = 400\<rparr>,
             \<lparr>year = JNum 2022, kwh = 900\<rparr>]"
  let ?t = "[\<lparr>year = JNum 2020, kwh = 100\<rparr>, \<lparr>year = JNum 2021, kwh = 400\<rparr>]"
  have ne: "?s \<noteq> []" by simp
  have ne': "?t \<noteq> []" by simp
  have ds: "differences ?s = [100, 300, 500]"
    by (simp add: differences_def enumerate_eq_zip upt_rec)
  have dt: "differences ?t = [100, 300]"
    by (simp add: differences_def enumerate_eq_zip upt_rec)
  have m: "meanValue (\<lambda>s. None) 2022 ?s = 300"
    using meanValue_full_years [OF ne, of "\<lambda>s. None" 2022]
    by (simp add: ds upt_rec Number_def)
  have m': "meanValue (\<lambda>s. None) 2021 ?t = 200"
    using meanValue_full_years [OF ne', of "\<lambda>s. None" 2021]
    by (simp add: dt upt_rec Number_def)
  from ne ds m m' show ?thesis by simp
qed

lemma map_throwing_read:
  "map_throwing read_properties xs
     = (if None \<in> set xs then Inl TypeError else Inr (map the xs))"
  by (induction xs) (auto simp add: read_properties_def split: option.splits)

lemma map_throwing_Some: "map_throwing read_properties (map Some ys) = Inr ys"
  by (simp add: map_throwing_read comp_def)

lemma updateYearlyYield_rendered:
  "xs \<noteq> [] \<Longrightarrow> chart \<Longrightarrow> updateYearlyYield p cy chart (Some xs) \<noteq> YearlyNoData"
  by (simp add: updateYearlyYield_def Let_def)

theorem updateYearlyYield_json_all_dropped_counterexample:
  "normalized [empty_record\<lparr>item_yield := Some 5000\<rparr>] = []
   \<and> updateYearlyYield_json (\<lambda>s. None) 2024 True
        (Some [Some (empty_record\<lparr>item_yield := Some 5000\<rparr>)])
       = Inr (YearlyRendered [] [] [])
   \<and> updateYearlyYield_json (\<lambda>s. None) 2024 True
        (Some [Some (empty_record\<lparr>item_yield := Some 5000\<rparr>)])
       \<noteq> Inr YearlyNoData"
  by (simp add: updateYearlyYield_json_def read_properties_def updateYearlyYield_def
      normalized_def normalizeItem_def empty_record_def nullish_def or_zero_def Math_round_def
      sorted_entries_def js_sort_def differences_def)

text \<open>
  C4 (amended). For every input the yearly reducer emits the "no data" signal exactly
  when the input is not an array, is the empty array, or the chart does not exist: the
  guard looks at the raw input, before records are normalized and dropped. It throws
  exactly when the guard is passed and an element of the array is \<^verbatim>\<open>null\<close> (a
  \<^verbatim>\<open>TypeError\<close>); on an array of records it never throws and returns the outcome of the
  reducer on these records.
\<close>

theorem updateYearlyYield_json_outcomes:
  "(updateYearlyYield_json p cy chart d = Inr YearlyNoData
      \<longleftrightarrow> (d = None \<or> d = Some [] \<or> \<not> chart))
   \<and> (updateYearlyYield_json p cy chart d = Inl e
      \<longleftrightarrow> (e = TypeError \<and> chart \<and> (\<exists>xs. d = Some xs \<and> None \<in> set xs)))
   \<and> updateYearlyYield_json p cy chart (Some (map Some ys))
       = Inr (updateYearlyYield p cy chart (Some ys))
   \<and> (\<forall>x. updateYearlyYield_json p cy chart (Some (map Some ys)) \<noteq> Inl x)"
proof -
  have nodata: "updateYearlyYield_json p cy chart d = Inr YearlyNoData
      \<longleftrightarrow> (d = None \<or> d = Some [] \<or> \<not> chart)"
  proof (cases d)
    case None
    then show ?thesis by (simp add: updateYearlyYield_json_def)
  next
    case (Some xs)
    show ?thesis
    proof (cases "xs = [] \<or> \<not> chart")
      case True
      then show ?thesis using Some by (auto simp add: updateYearlyYield_json_def)
    next
      case False
      then have ne: "map the xs \<noteq> []" and c: chart by simp_all
      have "updateYearlyYield p cy chart (Some (map the xs)) \<noteq> YearlyNoData"
        using ne c by (rule updateYearlyYield_rendered)
      then show ?thesis
        using Some False by (simp add: updateYearlyYield_json_def map_throwing_read)
    qed
  qed
  have throws: "updateYearlyYield_json p cy chart d = Inl e
      \<longleftrightarrow> (e = TypeError \<and> chart \<and> (\<exists>xs. d = Some xs \<and> None \<in> set xs))"
  proof (cases d)
    case None
    then show ?thesis by (simp add: updateYearlyYield_json_def)
  next
    case (Some xs)
    then show ?thesis
      by (auto simp add: updateYearlyYield_json_def map_throwing_read)
  qed
  have records: "updateYearlyYield_json p cy chart (Some (map Some ys))
       = Inr (updateYearlyYield p cy chart (Some ys))"
    by (simp add: updateYearlyYield_json_def map_throwing_Some updateYearlyYield_def)
  have never: "\<forall>x. updateYearlyYield_json p cy chart (Some (map Some ys)) \<noteq> Inl x"
    by (simp add: records)
  show ?thesis
    by (rule conjI [OF nodata conjI [OF throws conjI [OF records never]]])
qed

theorem updateYearlyYield_json_outcomes_witness:
  "updateYearlyYield_json (\<lambda>s. None) 2024 True (Some []) = Inr YearlyNoData
   \<and> updateYearlyYield_json (\<lambda>s. None) 2024 False
        (Some [None, Some (empty_record\<lparr>item_year := Some (JNum 2024)\<rparr>)]) = Inr YearlyNoData
   \<and> updateYearlyYield_json (\<lambda>s. None) 2024 True
        (Some [Some (empty_record\<lparr>item_year := Some (JNum 2024)\<rparr>), None]) = Inl TypeError
   \<and> updateYearlyYield_json (\<lambda>s. None) 2024 True
        (Some (map Some [empty_record\<lparr>item_year := Some (JNum 2024), item_yield := Some 5000\<rparr>]))
       = Inr (YearlyRendered [JNum 2024] [5] [5])"
proof -
  note out = updateYearlyYield_json_outcomes [where p = "\<lambda>s. None" and cy = 2024]
  have a: "updateYearlyYield_json (\<lambda>s. None) 2024 True (Some []) = Inr YearlyNoData"
    using out [where chart = True and d = "Some []"] by simp
  have b: "updateYearlyYield_json (\<lambda>s. None) 2024 False
        (Some [None, Some (empty_record\<lparr>item_year := Some (JNum 2024)\<rparr>)]) = Inr YearlyNoData"
    using out [where chart = False
        and d = "Some [None, Some (empty_record\<lparr>item_year := Some (JNum 2024)\<rparr>)]"]
    by simp
  have c: "updateYearlyYield_json (\<lambda>s. None) 2024 True
        (Some [Some (empty_record\<lparr>item_year := Some (JNum 2024)\<rparr>), None]) = Inl TypeError"
    using out [where chart = True and e = TypeError
        and d = "Some [Some (empty_record\<lparr>item_year := Some (JNum 2024)\<rparr>), None]"]
    by simp
  have v: "updateYearlyYield (\<lambda>s. None) 2024 True
             (Some [empty_record\<lparr>item_year := Some (JNum 2024), item_yield := Some 5000\<rparr>])
           = YearlyRendered [JNum 2024] [5] [5]"
    by (simp add: updateYearlyYield_def normalized_def normalizeItem_def
        empty_record_def nullish_def or_zero_def Math_round_def sorted_entries_def js_sort_def
        differences_def meanValue_def fullYearDifferences_def reduce_add_def enumerate_eq_zip)
  have d: "updateYearlyYield_json (\<lambda>s. None) 2024 True
        (Some (map Some [empty_record\<lparr>item_year := Some (JNum 2024), item_yield := Some 5000\<rparr>]))
       = Inr (YearlyRendered [JNum 2024] [5] [5])"
    using out [where chart = True
        and ys = "[empty_record\<lparr>item_year := Some (JNum 2024), item_yield := Some 5000\<rparr>]"]
      v by (simp only:)
  show ?thesis by (rule conjI [OF a conjI [OF b conjI [OF c d]]])
qed

theorem normalizeItem_reapplied_counterexample:
  "normalizeItem (empty_record\<lparr>item_year := Some (JNum 2024), item_yield := Some 5000\<rparr>)
     = \<lparr>year = JNum 2024, kwh = 5\<rparr>
   \<and> normalizeItem (entry_as_item
        (normalizeItem (empty_record\<lparr>item_year := Some (JNum 2024), item_yield := Some 5000\<rparr>)))
     = \<lparr>year = JNum 2024, kwh = 0\<rparr>
   \<and> normalizeItem (entry_as_item
        (normalizeItem (empty_record\<lparr>item_year := Some (JNum 2024), item_yield := Some 5000\<rparr>)))
     \<noteq> normalizeItem (empty_record\<lparr>item_year := Some (JNum 2024), item_yield := Some 5000\<rparr>)"
  by (simp add: normalizeItem_def entry_as_item_def empty_record_def nullish_def or_zero_def
      Math_round_def)

text \<open>
  C7 (amended). Normalizing the record \<^verbatim>\<open>{year: 2024, yield: 5000}\<close> yields
  \<^verbatim>\<open>{year: 2024, kwh: 5}\<close>, and the record is kept by the filter. Applying the
  normalizer to an entry it returned keeps the year and sets the kWh value to 0, since
  the entry has none of the yield keys: the second application gives
  \<^verbatim>\<open>{year: 2024, kwh: 0}\<close>, which further applications leave unchanged.
\<close>

theorem normalizeItem_reapplied:
  "normalizeItem (empty_record\<lparr>item_year := Some (JNum 2024), item_yield := Some 5000\<rparr>)
     = \<lparr>year = JNum 2024, kwh = 5\<rparr>
   \<and> normalized [empty_record\<lparr>item_year := Some (JNum 2024), item_yield := Some 5000\<rparr>]
     = [\<lparr>year = JNum 2024, kwh = 5\<rparr>]
   \<and> normalizeItem (entry_as_item e) = e\<lparr>kwh := 0\<rparr>
   \<and> normalizeItem (entry_as_item (normalizeItem (entry_as_item e)))
     = normalizeItem (entry_as_item e)"
proof -
  have first: "normalizeItem
        (empty_record\<lparr>item_year := Some (JNum 2024), item_yield := Some 5000\<rparr>)
      = \<lparr>year = JNum 2024, kwh = 5\<rparr>"
    by (simp add: normalizeItem_def empty_record_def nullish_def or_zero_def Math_round_def)
  have kept: "normalized [empty_record\<lparr>item_year := Some (JNum 2024), item_yield := Some 5000\<rparr>]
      = [\<lparr>year = JNum 2024, kwh = 5\<rparr>]"
    by (simp add: normalized_def first)
  have again: "normalizeItem (entry_as_item x) = x\<lparr>kwh := 0\<rparr>" for x
    by (simp add: normalizeItem_def entry_as_item_def nullish_def or_zero_def Math_round_def)
  have stable: "normalizeItem (entry_as_item (normalizeItem (entry_as_item e)))
      = normalizeItem (entry_as_item e)"
    by (simp add: again)
  from first kept again [of e] stable show ?thesis by simp
qed

text \<open>
  C10. The record \<^verbatim>\<open>{year: '-', yield: 5000}\<close> has a year that is present and not null,
  the one-character string \<^verbatim>\<open>'-'\<close>; the normalizer gives it the same entry as the record
  \<^verbatim>\<open>{yield: 5000}\<close> without a year, and drops it from the output wherever it stands in the
  input, because \<^verbatim>\<open>'-'\<close> is also the marker of a missing year.
\<close>

theorem dash_year_dropped:
  "item_year (empty_record\<lparr>item_year := Some (JStr ''-''), item_yield := Some 5000\<rparr>)
     = Some (JStr ''-'')
   \<and> normalizeItem (empty_record\<lparr>item_year := Some (JStr ''-''), item_yield := Some 5000\<rparr>)
     = normalizeItem (empty_record\<lparr>item_yield := Some 5000\<rparr>)
   \<and> normalized [empty_record\<lparr>item_year := Some (JStr ''-''), item_yield := Some 5000\<rparr>] = []
   \<and> normalized [empty_record\<lparr>item_yield := Some 5000\<rparr>] = []
   \<and> normalized
        (xs @ empty_record\<lparr>item_year := Some (JStr ''-''), item_yield := Some 5000\<rparr> # ys)
     = normalized (xs @ ys)"
  by (simp add: normalized_def normalizeItem_def empty_record_def nullish_def or_zero_def
      Math_round_def)

section \<open>Properties of the orchestrator\<close>

lemma fetch_step_Response:
  "status \<noteq> 401 \<Longrightarrow>
     fetch_step (Response status (Some (JsonValue x))) u
       = (if success x then (case u (data x) of Inl e \<Rightarrow> Inl e | Inr v \<Rightarrow> Inr (Some v))
          else Inr None)"
  by (simp add: fetch_step_def await_json_def)

text \<open>When the transforms of the first two resources throw.\<close>

lemma updateMetrics_json_throws:
  "updateMetrics_json chart d = Inl e \<longleftrightarrow> d = None \<and> e = TypeError"
  by (auto simp add: updateMetrics_json_def read_properties_def split: option.splits)

lemma updateTimeSeries_json_throws:
  "updateTimeSeries_json fmt chart d = Inl e
     \<longleftrightarrow> e = TypeError \<and> (\<exists>xs. d = Some xs \<and> None \<in> set xs)"
  by (cases d) (auto simp add: updateTimeSeries_json_def map_throwing_read)

theorem fetchData_transport_failure_counterexample:
  "await_json (Rejected :: CurrentData option fetched) = Inl FetchRejected
   \<and> timeSeries (fetchData charts_ready initial_page Rejected
        (Response 200 (Some (JsonValue \<lparr>success = True,
            data = Some [Some \<lparr>TimeStamp = 50, Power = Some 300\<rparr>]\<rparr>)))
        (Response 200 (Some (JsonValue \<lparr>success = True,
            data = Some [Some (empty_record\<lparr>item_year := Some (JNum 2024),
                                             item_yield := Some 5000\<rparr>)]\<rparr>))))
       = None
   \<and> yearlyYield (fetchData charts_ready initial_page Rejected
        (Response 200 (Some (JsonValue \<lparr>success = True,
            data = Some [Some \<lparr>TimeStamp = 50, Power = Some 300\<rparr>]\<rparr>)))
        (Response 200 (Some (JsonValue \<lparr>success = True,
            data = Some [Some (empty_record\<lparr>item_year := Some (JNum 2024),
                                             item_yield := Some 5000\<rparr>)]\<rparr>))))
       = None"
  by (simp add: fetchData_def fetch_step_def await_json_def initial_page_def)

text \<open>
  C5 (amended). Within one cycle the three resources are processed in the fixed order
  current, today, yearly. A resource does not end the cycle when its fetch resolves to
  a response whose status is not 401 and whose body parses to a value other than
  \<^verbatim>\<open>null\<close>, and, if that payload reports success, its transform does not throw. When
  this holds of all three, each resource is handed to the sink exactly when its own
  payload reports success, whatever the status and the success flag of the other two: a
  payload that does not report success blocks nothing. Otherwise the first resource of
  which it fails ends the cycle with its error shown (a rejected fetch, a status 401, a
  body that is not JSON, a body \<^verbatim>\<open>null\<close>, or a reported success whose transform
  throws): the resources before it have been handed to the sink, the ones after it are
  not processed.
\<close>

theorem fetchData_sequential:
  "(c = Response sc (Some (JsonValue xc)) \<and> sc \<noteq> 401
      \<and> (success xc \<longrightarrow> updateMetrics_json (powerGaugeChart b) (data xc) = Inr mv)
      \<and> t = Response st (Some (JsonValue xt)) \<and> st \<noteq> 401
      \<and> (success xt \<longrightarrow>
            updateTimeSeries_json (toLocaleTimeString b) (powerTimeSeriesChart b) (data xt) = Inr tv)
      \<and> y = Response sy (Some (JsonValue xy)) \<and> sy \<noteq> 401
      \<and> (success xy \<longrightarrow>
            updateYearlyYield_json (StringToNumber b) (currentYear b) (yearlyYieldChart b)
              (data xy) = Inr yv)
      \<longrightarrow>
      fetchData b pg c t y
        = pg\<lparr>metrics := (if success xc then Some mv else metrics pg),
             timeSeries := (if success xt then Some tv else timeSeries pg),
             yearlyYield := (if success xy then Some yv else yearlyYield pg),
             errorContainer := None, refreshed := True\<rparr>)
  \<and> (fetch_step c (updateMetrics_json (powerGaugeChart b)) = Inl e \<longrightarrow>
      fetchData b pg c t y = pg\<lparr>errorContainer := Some e, refreshed := False\<rparr>)
  \<and> (fetch_step c (updateMetrics_json (powerGaugeChart b)) = Inr rc
      \<and> fetch_step t (updateTimeSeries_json (toLocaleTimeString b) (powerTimeSeriesChart b)) = Inl e
      \<longrightarrow>
      fetchData b pg c t y
        = pg\<lparr>metrics := (case rc of None \<Rightarrow> metrics pg | Some v \<Rightarrow> Some v),
             errorContainer := Some e, refreshed := False\<rparr>)
  \<and> (fetch_step c (updateMetrics_json (powerGaugeChart b)) = Inr rc
      \<and> fetch_step t (updateTimeSeries_json (toLocaleTimeString b) (powerTimeSeriesChart b)) = Inr rt
      \<and> fetch_step y (updateYearlyYield_json (StringToNumber b) (currentYear b) (yearlyYieldChart b))
          = Inl e
      \<longrightarrow>
      fetchData b pg c t y
        = pg\<lparr>metrics := (case rc of None \<Rightarrow> metrics pg | Some v \<Rightarrow> Some v),
             timeSeries := (case rt of None \<Rightarrow> timeSeries pg | Some v \<Rightarrow> Some v),
             errorContainer := Some e, refreshed := False\<rparr>)
  \<and> (fetch_step r u = Inl e \<longleftrightarrow>
      (r = Rejected \<and> e = FetchRejected)
      \<or> (\<exists>body. r = Response 401 body \<and> e = Unauthorized)
      \<or> (\<exists>s. s \<noteq> 401 \<and> r = Response s None \<and> e = JsonRejected)
      \<or> (\<exists>s. s \<noteq> 401 \<and> r = Response s (Some JsonNull) \<and> e = TypeError)
      \<or> (\<exists>s x. s \<noteq> 401 \<and> r = Response s (Some (JsonValue x)) \<and> success x
                \<and> u (data x) = Inl e))"
proof -
  have all: "c = Response sc (Some (JsonValue xc)) \<and> sc \<noteq> 401
      \<and> (success xc \<longrightarrow> updateMetrics_json (powerGaugeChart b) (data xc) = Inr mv)
      \<and> t = Response st (Some (JsonValue xt)) \<and> st \<noteq> 401
      \<and> (success xt \<longrightarrow>
            updateTimeSeries_json (toLocaleTimeString b) (powerTimeSeriesChart b) (data xt) = Inr tv)
      \<and> y = Response sy (Some (JsonValue xy)) \<and> sy \<noteq> 401
      \<and> (success xy \<longrightarrow>
            updateYearlyYield_json (StringToNumber b) (currentYear b) (yearlyYieldChart b)
              (data xy) = Inr yv)
      \<longrightarrow>
      fetchData b pg c t y
        = pg\<lparr>metrics := (if success xc then Some mv else metrics pg),
             timeSeries := (if success xt then Some tv else timeSeries pg),
             yearlyYield := (if success xy then Some yv else yearlyYield pg),
             errorContainer := None, refreshed := True\<rparr>"
    by (simp add: fetchData_def Let_def fetch_step_Response)
  have first: "fetch_step c (updateMetrics_json (powerGaugeChart b)) = Inl e \<longrightarrow>
      fetchData b pg c t y = pg\<lparr>errorContainer := Some e, refreshed := False\<rparr>"
    by (simp add: fetchData_def Let_def)
  have second: "fetch_step c (updateMetrics_json (powerGaugeChart b)) = Inr rc
      \<and> fetch_step t (updateTimeSeries_json (toLocaleTimeString b) (powerTimeSeriesChart b)) = Inl e
      \<longrightarrow>
      fetchData b pg c t y
        = pg\<lparr>metrics := (case rc of None \<Rightarrow> metrics pg | Some v \<Rightarrow> Some v),
             errorContainer := Some e, refreshed := False\<rparr>"
    by (cases rc) (simp_all add: fetchData_def Let_def)
  have third: "fetch_step c (updateMetrics_json (powerGaugeChart b)) = Inr rc
      \<and> fetch_step t (updateTimeSeries_json (toLocaleTimeString b) (powerTimeSeriesChart b)) = Inr rt
      \<and> fetch_step y (updateYearlyYield_json (StringToNumber b) (currentYear b) (yearlyYieldChart b))
          = Inl e
      \<longrightarrow>
      fetchData b pg c t y
        = pg\<lparr>metrics := (case rc of None \<Rightarrow> metrics pg | Some v \<Rightarrow> Some v),
             timeSeries := (case rt of None \<Rightarrow> timeSeries pg | Some v \<Rightarrow> Some v),
             errorContainer := Some e, refreshed := False\<rparr>"
    by (cases rc; cases rt) (simp_all add: fetchData_def Let_def)
  have ends: "fetch_step r u = Inl e \<longleftrightarrow>
      (r = Rejected \<and> e = FetchRejected)
      \<or> (\<exists>body. r = Response 401 body \<and> e = Unauthorized)
      \<or> (\<exists>s. s \<noteq> 401 \<and> r = Response s None \<and> e = JsonRejected)
      \<or> (\<exists>s. s \<noteq> 401 \<and> r = Response s (Some JsonNull) \<and> e = TypeError)
      \<or> (\<exists>s x. s \<noteq> 401 \<and> r = Response s (Some (JsonValue x)) \<and> success x
                \<and> u (data x) = Inl e)"
  proof (cases r)
    case Rejected
    then show ?thesis by (auto simp add: fetch_step_def await_json_def)
  next
    case (Response s body)
    show ?thesis
    proof (cases "s = 401")
      case True
      then show ?thesis using Response by (auto simp add: fetch_step_def await_json_def ok_def)
    next
      case False
      show ?thesis
      proof (cases body)
        case None
        then show ?thesis
          using Response False by (auto simp add: fetch_step_def await_json_def)
      next
        case (Some v)
        then show ?thesis
          using Response False
          by (cases v) (auto simp add: fetch_step_def await_json_def split: sum.splits)
      qed
    qed
  qed
  show ?thesis
    by (rule conjI [OF all conjI [OF first conjI [OF second conjI [OF third ends]]]])
qed

theorem fetchData_sequential_witness:
  "fetchData charts_ready initial_page
        (Response 500 (Some (JsonValue \<lparr>success = False, data = None\<rparr>)))
        (Response 200 (Some (JsonValue \<lparr>success = True,
            data = Some [Some \<lparr>TimeStamp = 50, Power = Some 300\<rparr>]\<rparr>)))
        (Response 200 (Some (JsonValue \<lparr>success = True,
            data = Some [Some (empty_record\<lparr>item_year := Some (JNum 2024),
                                             item_yield := Some 5000\<rparr>)]\<rparr>)))
     = initial_page\<lparr>timeSeries := Some (SeriesUpdated [''12:00 AM''] [300]),
                    yearlyYield := Some (YearlyRendered [JNum 2024] [5] [5]),
                    refreshed := True\<rparr>
   \<and> fetchData charts_ready initial_page
        (Response 200 (Some JsonNull))
        (Response 200 (Some (JsonValue \<lparr>success = True,
            data = Some [Some \<lparr>TimeStamp = 50, Power = Some 300\<rparr>]\<rparr>)))
        (Response 200 (Some (JsonValue \<lparr>success = True,
            data = Some [Some (empty_record\<lparr>item_year := Some (JNum 2024),
                                             item_yield := Some 5000\<rparr>)]\<rparr>)))
     = initial_page\<lparr>errorContainer := Some TypeError\<rparr>
   \<and> fetchData charts_ready initial_page
        (Response 500 (Some (JsonValue \<lparr>success = False, data = None\<rparr>)))
        (Response 200 (Some (JsonValue \<lparr>success = True,
            data = Some [Some \<lparr>TimeStamp = 50, Power = Some 300\<rparr>, None]\<rparr>)))
        (Response 200 (Some (JsonValue \<lparr>success = True,
            data = Some [Some (empty_record\<lparr>item_year := Some (JNum 2024),
                                             item_yield := Some 5000\<rparr>)]\<rparr>)))
     = initial_page\<lparr>errorContainer := Some TypeError\<rparr>
   \<and> fetchData charts_ready initial_page
        (Response 500 (Some (JsonValue \<lparr>success = False, data = None\<rparr>)))
        (Response 200 (Some (JsonValue \<lparr>success = True,
            data = Some [Some \<lparr>TimeStamp = 50, Power = Some 300\<rparr>]\<rparr>)))
        Rejected
     = initial_page\<lparr>timeSeries := Some (SeriesUpdated [''12:00 AM''] [300]),
                    errorContainer := Some FetchRejected\<rparr>"
proof -
  let ?c = "Response 500 (Some (JsonValue \<lparr>success = False, data = None\<rparr>)) :: CurrentData option fetched"
  let ?t = "Response 200 (Some (JsonValue \<lparr>success = True,
            data = Some [Some \<lparr>TimeStamp = 50, Power = Some 300\<rparr>]\<rparr>))"
  let ?tn = "Response 200 (Some (JsonValue \<lparr>success = True,
            data = Some [Some \<lparr>TimeStamp = 50, Power = Some 300\<rparr>, None]\<rparr>))"
  let ?y = "Response 200 (Some (JsonValue \<lparr>success = True,
            data = Some [Some (empty_record\<lparr>item_year := Some (JNum 2024),
                                             item_yield := Some 5000\<rparr>)]\<rparr>))"
  let ?um = "updateMetrics_json (powerGaugeChart charts_ready)"
  let ?ut = "updateTimeSeries_json (toLocaleTimeString charts_ready)
               (powerTimeSeriesChart charts_ready)"
  let ?uy = "updateYearlyYield_json (StringToNumber charts_ready) (currentYear charts_ready)
               (yearlyYieldChart charts_ready)"
  have ts: "?ut (Some [Some \<lparr>TimeStamp = 50, Power = Some 300\<rparr>])
            = Inr (SeriesUpdated [''12:00 AM''] [300])"
    by (simp add: charts_ready_def updateTimeSeries_json_def read_properties_def
        updateTimeSeries_def labels_def powers_def sortedData_def js_sort_def or_zero_def
        Math_round_def)
  have tn: "?ut (Some [Some \<lparr>TimeStamp = 50, Power = Some 300\<rparr>, None]) = Inl TypeError"
    by (simp add: charts_ready_def updateTimeSeries_json_def read_properties_def)
  have yy: "?uy (Some [Some (empty_record\<lparr>item_year := Some (JNum 2024),
                                             item_yield := Some 5000\<rparr>)])
            = Inr (YearlyRendered [JNum 2024] [5] [5])"
    by (simp add: charts_ready_def updateYearlyYield_json_def read_properties_def
        updateYearlyYield_def normalized_def normalizeItem_def
        empty_record_def nullish_def or_zero_def Math_round_def sorted_entries_def js_sort_def
        differences_def meanValue_def fullYearDifferences_def reduce_add_def enumerate_eq_zip)
  have sc: "fetch_step ?c ?um = Inr None"
    by (simp add: fetch_step_def await_json_def ok_def)
  have st: "fetch_step ?t ?ut = Inr (Some (SeriesUpdated [''12:00 AM''] [300]))"
    using ts by (simp add: fetch_step_def await_json_def ok_def)
  note seq = fetchData_sequential [where b = charts_ready and pg = initial_page]
  have a: "fetchData charts_ready initial_page ?c ?t ?y
     = initial_page\<lparr>timeSeries := Some (SeriesUpdated [''12:00 AM''] [300]),
                    yearlyYield := Some (YearlyRendered [JNum 2024] [5] [5]),
                    refreshed := True\<rparr>"
  proof -
    note all = seq [where c = ?c and t = ?t and y = ?y and sc = 500 and st = 200 and sy = 200
        and xc = "\<lparr>success = False, data = None\<rparr>"
        and xt = "\<lparr>success = True, data = Some [Some \<lparr>TimeStamp = 50, Power = Some 300\<rparr>]\<rparr>"
        and xy = "\<lparr>success = True,
            data = Some [Some (empty_record\<lparr>item_year := Some (JNum 2024),
                                             item_yield := Some 5000\<rparr>)]\<rparr>"
        and mv = "\<lparr>powerValue = 0, yieldValue = 0, gaugeData = None\<rparr>"
        and tv = "SeriesUpdated [''12:00 AM''] [300]"
        and yv = "YearlyRendered [JNum 2024] [5] [5]", THEN conjunct1]
    show ?thesis using all ts yy by (simp add: initial_page_def)
  qed
  have b: "fetchData charts_ready initial_page (Response 200 (Some JsonNull)) ?t ?y
     = initial_page\<lparr>errorContainer := Some TypeError\<rparr>"
  proof -
    note ends = seq [where r = "Response 200 (Some JsonNull) :: CurrentData option fetched"
        and u = ?um and e = TypeError, THEN conjunct2, THEN conjunct2, THEN conjunct2,
        THEN conjunct2]
    have "fetch_step (Response 200 (Some JsonNull) :: CurrentData option fetched) ?um
            = Inl TypeError"
      using ends by simp
    with seq [where c = "Response 200 (Some JsonNull)" and t = ?t and y = ?y
          and e = TypeError, THEN conjunct2, THEN conjunct1]
    show ?thesis by (simp add: initial_page_def)
  qed
  have c: "fetchData charts_ready initial_page ?c ?tn ?y
     = initial_page\<lparr>errorContainer := Some TypeError\<rparr>"
  proof -
    have "fetch_step ?tn ?ut = Inl TypeError"
      using tn by (simp add: fetch_step_def await_json_def ok_def)
    with sc seq [where c = ?c and t = ?tn and y = ?y and e = TypeError and rc = None,
          THEN conjunct2, THEN conjunct2, THEN conjunct1]
    show ?thesis by (simp add: initial_page_def)
  qed
  have d: "fetchData charts_ready initial_page ?c ?t Rejected
     = initial_page\<lparr>timeSeries := Some (SeriesUpdated [''12:00 AM''] [300]),
                    errorContainer := Some FetchRejected\<rparr>"
  proof -
    have "fetch_step (Rejected :: RawYearRecord option list option fetched) ?uy
            = Inl FetchRejected"
      by (simp add: fetch_step_def await_json_def)
    with sc st seq [where c = ?c and t = ?t and y = Rejected and e = FetchRejected
          and rc = None and rt = "Some (SeriesUpdated [''12:00 AM''] [300])",
          THEN conjunct2, THEN conjunct2, THEN conjunct2, THEN conjunct1]
    show ?thesis by (simp add: initial_page_def)
  qed
  show ?thesis by (rule conjI [OF a conjI [OF b conjI [OF c d]]])
qed

end
